theory Spec2Isabelle
  imports Main
begin

section \<open>The session backend (livia-backend/server.js)\<close>

text \<open>
  The backend keeps two module-level variables: the object \<open>sessions\<close> (a plain
  JavaScript object used as a dictionary from session ids to session objects) and the
  array \<open>history\<close>. Every request handler runs synchronously to completion, so a handler
  is a function from the state before the request to a response and the state after it.

  Conventions of the embedding:
  \<^item> Strings are sequences of ASCII characters. Numbers are integers (seconds for
    positions and durations, milliseconds for \<open>Date.now()\<close>).
  \<^item> A request body is typed as the clients send it: text fields are strings, \<open>duration\<close>
    and \<open>position\<close> are numbers, \<open>playing\<close> is a boolean. A field that is absent from the
    body (\<open>undefined\<close> after destructuring) is \<open>None\<close>. The metadata fields, which the
    clients send as \<open>null\<close> when they have no value, are three-valued.
  \<^item> A session property that may hold \<open>null\<close> is an \<open>option\<close>, with \<open>None\<close> for \<open>null\<close>.
  \<^item> All the \<open>Date.now()\<close> reads of one handler run return the same instant \<open>now\<close>.
\<close>

subsection \<open>Values and truthiness\<close>

datatype 'a field = Absent | Null | Given 'a

definition opt_of_field :: "'a field \<Rightarrow> 'a option" where
  "opt_of_field f = (case f of Absent \<Rightarrow> None | Null \<Rightarrow> None | Given x \<Rightarrow> Some x)"

text \<open>Truthiness: the empty string, the number 0, \<open>false\<close>, \<open>null\<close> and \<open>undefined\<close> are falsy.\<close>

definition truthy_str :: "string option \<Rightarrow> bool" where
  "truthy_str v = (case v of None \<Rightarrow> False | Some s \<Rightarrow> s \<noteq> [])"

definition truthy_num :: "int option \<Rightarrow> bool" where
  "truthy_num v = (case v of None \<Rightarrow> False | Some n \<Rightarrow> n \<noteq> 0)"

definition truthy_bool :: "bool option \<Rightarrow> bool" where
  "truthy_bool v = (case v of None \<Rightarrow> False | Some b \<Rightarrow> b)"

text \<open>The operator \<open>a || b\<close> on strings and on numbers.\<close>

definition str_or :: "string option \<Rightarrow> string option \<Rightarrow> string option" where
  "str_or a b = (if truthy_str a then a else b)"

definition num_or :: "int option \<Rightarrow> int option \<Rightarrow> int option" where
  "num_or a b = (if truthy_num a then a else b)"

text \<open>\<open>a || ""\<close>, \<open>a || 0\<close> and \<open>a || null\<close>.\<close>

definition str_default :: "string option \<Rightarrow> string \<Rightarrow> string" where
  "str_default a d = (case a of None \<Rightarrow> d | Some s \<Rightarrow> if s = [] then d else s)"

definition num_default :: "int option \<Rightarrow> int \<Rightarrow> int" where
  "num_default a d = (case a of None \<Rightarrow> d | Some n \<Rightarrow> if n = 0 then d else n)"

definition str_or_null :: "string option \<Rightarrow> string option" where
  "str_or_null a = (case a of None \<Rightarrow> None | Some s \<Rightarrow> if s = [] then None else Some s)"

definition num_or_null :: "int option \<Rightarrow> int option" where
  "num_or_null a = (case a of None \<Rightarrow> None | Some n \<Rightarrow> if n = 0 then None else Some n)"

text \<open>\<open>String.prototype.toLowerCase\<close> on ASCII text.\<close>

definition lower_char :: "char \<Rightarrow> char" where
  "lower_char c =
     (case map_of (zip ''ABCDEFGHIJKLMNOPQRSTUVWXYZ'' ''abcdefghijklmnopqrstuvwxyz'') c of
        None \<Rightarrow> c
      | Some l \<Rightarrow> l)"

definition toLowerCase :: "string \<Rightarrow> string" where
  "toLowerCase s = map lower_char s"

text \<open>\<open>ensureHttps(url)\<close>: a falsy argument is returned as it is; otherwise a leading
  \<open>http://\<close> is replaced by \<open>https://\<close>.\<close>

definition ensureHttps :: "string option \<Rightarrow> string option" where
  "ensureHttps url =
     (case url of
        None \<Rightarrow> None
      | Some u \<Rightarrow>
          if u = [] then Some u
          else if take 7 u = ''http://'' then Some (''https://'' @ drop 7 u)
          else Some u)"

subsection \<open>Sessions, history entries and the server state\<close>

record user_info =
  user_id :: "string option"
  username :: "string option"
  displayName :: "string option"
  avatarUrl :: "string option"

record session =
  app :: string
  albumArt :: string
  currentSong :: "string option"
  currentArtist :: "string option"
  album :: "string option"
  active :: bool
  playing :: bool
  songPosition :: int
  songDuration :: int
  lastPlayStart :: "int option"
  totalPlayTime :: int
  createdAt :: int
  lastUpdated :: int
  user :: "user_info option"
  genre :: "string option"
  year :: "int option"
  label :: "string option"
  trackCount :: "int option"
  albumDescription :: "string option"
  artistBio :: "string option"
  artistImage :: "string option"

record history_entry =
  h_id :: string
  h_song :: string
  h_artist :: string
  h_album :: string
  h_albumArt :: string
  h_app :: string
  h_duration :: int
  playedAt :: int
  playCount :: int
  h_user :: "user_info option"
  h_genre :: "string option"
  h_year :: "int option"
  h_label :: "string option"
  h_artistImage :: "string option"

record server =
  sessions :: "string \<rightharpoonup> session"
  history :: "history_entry list"

text \<open>The argument object of \<open>addToHistory\<close>.\<close>

record track_data =
  td_song :: "string option"
  td_artist :: "string option"
  td_album :: "string option"
  td_albumArt :: "string option"
  td_app :: "string option"
  td_duration :: "int option"
  td_user :: "user_info option"
  td_genre :: "string option"
  td_year :: "int option"
  td_label :: "string option"
  td_artistImage :: "string option"

text \<open>The bodies of \<open>PUT /session/:id\<close> and \<open>POST /session\<close>.\<close>

record put_body =
  req_song :: "string option"
  req_artist :: "string option"
  req_album :: "string option"
  req_albumArt :: "string option"
  req_playing :: "bool option"
  req_duration :: "int option"
  req_position :: "int option"
  req_genre :: "string field"
  req_year :: "int field"
  req_label :: "string field"
  req_trackCount :: "int field"
  req_albumDescription :: "string field"
  req_artistBio :: "string field"
  req_artistImage :: "string field"

record post_body = put_body +
  req_app :: "string option"
  req_user :: "user_info option"

subsection \<open>The history log\<close>

definition MAX_HISTORY_ITEMS :: nat where
  "MAX_HISTORY_ITEMS = 50"

text \<open>The key of a history entry: \<open>`${song.toLowerCase()}-${artist.toLowerCase()}`\<close>.\<close>

definition trackId :: "string \<Rightarrow> string \<Rightarrow> string" where
  "trackId song artist = toLowerCase song @ ''-'' @ toLowerCase artist"

text \<open>\<open>user ? {id, username, displayName, avatarUrl} : null\<close>\<close>

definition copy_user :: "user_info option \<Rightarrow> user_info option" where
  "copy_user u =
     (case u of
        None \<Rightarrow> None
      | Some v \<Rightarrow> Some \<lparr>user_id = user_id v, username = username v,
                       displayName = displayName v, avatarUrl = avatarUrl v\<rparr>)"

text \<open>
  \<open>addToHistory(trackData)\<close>. The statements run in the order of the source: the entry
  with the same key is filtered out of \<open>history\<close> first, and the object literal of the new
  entry, with its lookup \<open>history.find(...)?.playCount\<close>, is evaluated afterwards, on the
  filtered array.
\<close>

definition addToHistory :: "int \<Rightarrow> track_data \<Rightarrow> history_entry list \<Rightarrow> history_entry list" where
  "addToHistory now td hist =
     (case (td_song td, td_artist td) of
        (Some song, Some artist) \<Rightarrow>
          if song = [] \<or> artist = [] then hist
          else
            let tid = trackId song artist;
                hist1 = filter (\<lambda>t. h_id t \<noteq> tid) hist;
                entry = \<lparr>h_id = tid,
                         h_song = song,
                         h_artist = artist,
                         h_album = str_default (td_album td) [],
                         h_albumArt = str_default (ensureHttps (td_albumArt td)) [],
                         h_app = str_default (td_app td) ''Unknown'',
                         h_duration = num_default (td_duration td) 0,
                         playedAt = now,
                         playCount =
                           (case find (\<lambda>t. h_id t = tid) hist1 of
                              None \<Rightarrow> 0
                            | Some t \<Rightarrow> num_default (Some (playCount t)) 0) + 1,
                         h_user = copy_user (td_user td),
                         h_genre = str_or_null (td_genre td),
                         h_year = num_or_null (td_year td),
                         h_label = str_or_null (td_label td),
                         h_artistImage = str_or_null (ensureHttps (td_artistImage td))\<rparr>
            in take MAX_HISTORY_ITEMS (entry # hist1)
      | _ \<Rightarrow> hist)"

subsection \<open>Looking a session up\<close>

text \<open>
  \<open>sessions\<close> is created as \<open>{}\<close>, so the read \<open>sessions[req.params.id]\<close> finds the
  session stored under the id, and otherwise follows the prototype chain: for an id that
  is a property name of \<open>Object.prototype\<close> it yields that built-in value, which is truthy
  and has no \<open>active\<close> property.
\<close>

definition object_prototype_keys :: "string list" where
  "object_prototype_keys =
     [''constructor'', ''hasOwnProperty'', ''isPrototypeOf'', ''propertyIsEnumerable'',
      ''toLocaleString'', ''toString'', ''valueOf'', ''__proto__'',
      ''__defineGetter__'', ''__defineSetter__'', ''__lookupGetter__'', ''__lookupSetter__'']"

datatype slot = Missing | Inherited | Own session

definition lookup_session :: "server \<Rightarrow> string \<Rightarrow> slot" where
  "lookup_session st sid =
     (case sessions st sid of
        Some s \<Rightarrow> Own s
      | None \<Rightarrow> if sid \<in> set object_prototype_keys then Inherited else Missing)"

subsection \<open>Responses\<close>

datatype js_error = ReferenceError string

record session_view =
  v_app :: string
  v_albumArt :: string
  v_currentSong :: "string option"
  v_currentArtist :: "string option"
  v_album :: "string option"
  v_active :: bool
  v_playing :: bool
  v_songDuration :: int
  v_user :: "user_info option"
  v_artistImage :: "string option"
  v_position :: int
  v_duration :: int
  v_totalPlayTime :: int
  v_status :: string
  v_genre :: "string option"
  v_year :: "int option"
  v_label :: "string option"
  v_trackCount :: "int option"
  v_albumDescription :: "string option"
  v_artistBio :: "string option"

text \<open>
  \<open>Created\<close> is the 200 answer \<open>{sessionId, url}\<close> of POST, \<open>Updated\<close> the 200 answer
  \<open>{success, sessionId}\<close> of PUT, \<open>View\<close> the 200 answer of GET for a stored session and
  \<open>ViewOfBuiltin\<close> the 200 answer of GET computed from an inherited built-in value. An
  exception that escapes a handler is answered by the framework with status 500.
\<close>

datatype response =
    Created string string
  | Updated string
  | View session_view
  | ViewOfBuiltin
  | BadRequest
  | NotFound
  | Gone
  | Uncaught js_error

fun status :: "response \<Rightarrow> nat" where
  "status (Created _ _) = 200"
| "status (Updated _) = 200"
| "status (View _) = 200"
| "status ViewOfBuiltin = 200"
| "status BadRequest = 400"
| "status NotFound = 404"
| "status Gone = 410"
| "status (Uncaught _) = 500"

subsection \<open>Position extrapolation\<close>

text \<open>
  \<open>updateSongPosition(session)\<close>: when the session is playing and \<open>lastPlayStart\<close> is
  truthy (neither \<open>null\<close> nor 0), the whole seconds elapsed since \<open>lastPlayStart\<close> are
  added to \<open>songPosition\<close> and \<open>totalPlayTime\<close>, and \<open>lastPlayStart\<close> becomes \<open>now\<close>.
  \<open>Math.floor(x / 1000)\<close> is \<open>x div 1000\<close> on integers.
\<close>

definition elapsed_since :: "int \<Rightarrow> int \<Rightarrow> int" where
  "elapsed_since now t = (now - t) div 1000"

definition updateSongPosition :: "int \<Rightarrow> session \<Rightarrow> session" where
  "updateSongPosition now s =
     (if playing s \<and> truthy_num (lastPlayStart s)
      then (case lastPlayStart s of
              None \<Rightarrow> s
            | Some t \<Rightarrow>
                s\<lparr>songPosition := songPosition s + elapsed_since now t,
                  totalPlayTime := totalPlayTime s + elapsed_since now t,
                  lastPlayStart := Some now\<rparr>)
      else s)"

subsection \<open>PUT /session/:id\<close>

text \<open>\<open>const songChanged = song !== undefined && song !== session.currentSong\<close>\<close>

definition songChanged :: "put_body \<Rightarrow> session \<Rightarrow> bool" where
  "songChanged body s = (req_song body \<noteq> None \<and> req_song body \<noteq> currentSong s)"

text \<open>\<open>playing ? Date.now() : null\<close>\<close>

definition anchor :: "bool option \<Rightarrow> int \<Rightarrow> int option" where
  "anchor p now = (if truthy_bool p then Some now else None)"

text \<open>Lines 317 to 325: an explicit position is authoritative; without one, and with the
  song unchanged, the elapsed time is flushed.\<close>

definition apply_position :: "int \<Rightarrow> put_body \<Rightarrow> session \<Rightarrow> session" where
  "apply_position now body s =
     (case req_position body of
        Some p \<Rightarrow> s\<lparr>songPosition := p, lastPlayStart := anchor (req_playing body) now\<rparr>
      | None \<Rightarrow> if \<not> songChanged body s then updateSongPosition now s else s)"

text \<open>Lines 327 to 336, the session part of the song-change branch. The argument \<open>s0\<close> is
  the session as the handler found it (\<open>songChanged\<close> was computed from it).\<close>

definition apply_song_change :: "int \<Rightarrow> put_body \<Rightarrow> session \<Rightarrow> session \<Rightarrow> session" where
  "apply_song_change now body s0 s =
     (if songChanged body s0
      then (if req_position body = None then s\<lparr>songPosition := 0\<rparr> else s)
             \<lparr>lastPlayStart := anchor (req_playing body) now\<rparr>
      else s)"

text \<open>Lines 339 to 351, the argument of \<open>addToHistory\<close> in the song-change branch. The
  session properties it reads are written by none of the statements before it, so they
  are read from the session as the handler found it.\<close>

definition song_change_track :: "put_body \<Rightarrow> session \<Rightarrow> track_data" where
  "song_change_track body s =
     \<lparr>td_song = req_song body,
      td_artist = str_or (req_artist body) (currentArtist s),
      td_album = str_or (req_album body) (album s),
      td_albumArt = str_or (req_albumArt body) (Some (albumArt s)),
      td_app = Some (app s),
      td_duration = num_or (req_duration body) (Some (songDuration s)),
      td_user = user s,
      td_genre = str_or (opt_of_field (req_genre body)) (genre s),
      td_year = num_or (opt_of_field (req_year body)) (year s),
      td_label = str_or (opt_of_field (req_label body)) (label s),
      td_artistImage = str_or (opt_of_field (req_artistImage body)) (artistImage s)\<rparr>"

text \<open>Lines 354 to 368: each field that is present in the body overwrites the session's.\<close>

definition set_opt :: "'a option \<Rightarrow> 'a \<Rightarrow> 'a" where
  "set_opt v old = (case v of None \<Rightarrow> old | Some x \<Rightarrow> x)"

definition set_field :: "'a field \<Rightarrow> 'a option \<Rightarrow> 'a option" where
  "set_field v old = (case v of Absent \<Rightarrow> old | Null \<Rightarrow> None | Given x \<Rightarrow> Some x)"

definition apply_song_info :: "put_body \<Rightarrow> session \<Rightarrow> session" where
  "apply_song_info body s =
     s\<lparr>currentSong := (case req_song body of None \<Rightarrow> currentSong s | Some x \<Rightarrow> Some x),
       currentArtist := (case req_artist body of None \<Rightarrow> currentArtist s | Some x \<Rightarrow> Some x),
       album := (case req_album body of None \<Rightarrow> album s | Some x \<Rightarrow> Some x),
       albumArt := set_opt (req_albumArt body) (albumArt s),
       songDuration := set_opt (req_duration body) (songDuration s)\<rparr>"

definition apply_metadata :: "put_body \<Rightarrow> session \<Rightarrow> session" where
  "apply_metadata body s =
     s\<lparr>genre := set_field (req_genre body) (genre s),
       year := set_field (req_year body) (year s),
       label := set_field (req_label body) (label s),
       trackCount := set_field (req_trackCount body) (trackCount s),
       albumDescription := set_field (req_albumDescription body) (albumDescription s),
       artistBio := set_field (req_artistBio body) (artistBio s),
       artistImage :=
         (case req_artistImage body of
            Absent \<Rightarrow> artistImage s
          | Null \<Rightarrow> None
          | Given x \<Rightarrow> str_or_null (ensureHttps (Some x)))\<rparr>"

text \<open>Lines 370 to 383: the playing flag is written only under the guard
  \<open>playing !== undefined && !songChanged\<close>.\<close>

definition apply_playing :: "int \<Rightarrow> put_body \<Rightarrow> session \<Rightarrow> session \<Rightarrow> session" where
  "apply_playing now body s0 s =
     (case req_playing body of
        None \<Rightarrow> s
      | Some p \<Rightarrow>
          if songChanged body s0 then s
          else (if p \<and> \<not> playing s then s\<lparr>lastPlayStart := Some now\<rparr>
                else if \<not> p \<and> playing s then (updateSongPosition now s)\<lparr>lastPlayStart := None\<rparr>
                else s)\<lparr>playing := p\<rparr>)"

text \<open>The session after a PUT that passed the two guards.\<close>

definition put_update :: "int \<Rightarrow> put_body \<Rightarrow> session \<Rightarrow> session" where
  "put_update now body s0 =
     (apply_playing now body s0
        (apply_metadata body
           (apply_song_info body
              (apply_song_change now body s0
                 (apply_position now body s0)))))\<lparr>lastUpdated := now\<rparr>"

definition put_history :: "int \<Rightarrow> put_body \<Rightarrow> session \<Rightarrow> history_entry list \<Rightarrow> history_entry list" where
  "put_history now body s0 hist =
     (if songChanged body s0
      then addToHistory now (song_change_track body s0) hist
      else hist)"

definition put_session :: "string \<Rightarrow> int \<Rightarrow> put_body \<Rightarrow> server \<Rightarrow> response \<times> server" where
  "put_session sid now body st =
     (case lookup_session st sid of
        Missing \<Rightarrow> (NotFound, st)
      | Inherited \<Rightarrow> (Gone, st)
      | Own s \<Rightarrow>
          if \<not> active s then (Gone, st)
          else (Updated sid,
                st\<lparr>sessions := (sessions st)(sid \<mapsto> put_update now body s),
                   history := put_history now body s (history st)\<rparr>))"

subsection \<open>GET /session/:id\<close>

definition status_string :: "session \<Rightarrow> string" where
  "status_string s = (if active s then (if playing s then ''playing'' else ''paused'') else ''stopped'')"

text \<open>Lines 420 to 425: the stored position plus the whole seconds of the current playing
  run, which is counted only when \<open>session.playing && session.lastPlayStart\<close> holds.\<close>

definition rawPosition :: "int \<Rightarrow> session \<Rightarrow> int" where
  "rawPosition now s =
     (if playing s \<and> truthy_num (lastPlayStart s)
      then (case lastPlayStart s of
              None \<Rightarrow> songPosition s
            | Some t \<Rightarrow> songPosition s + elapsed_since now t)
      else songPosition s)"

text \<open>Lines 427 to 430: \<open>Math.min(currentPosition, session.songDuration)\<close> under the guard
  \<open>session.songDuration > 0\<close>.\<close>

definition currentPosition :: "int \<Rightarrow> session \<Rightarrow> int" where
  "currentPosition now s =
     (if songDuration s > 0 then min (rawPosition now s) (songDuration s) else rawPosition now s)"

definition totalDuration :: "int \<Rightarrow> session \<Rightarrow> int" where
  "totalDuration now s =
     (if playing s \<and> truthy_num (lastPlayStart s)
      then (case lastPlayStart s of
              None \<Rightarrow> totalPlayTime s
            | Some t \<Rightarrow> totalPlayTime s + elapsed_since now t)
      else totalPlayTime s)"

definition view_of :: "int \<Rightarrow> session \<Rightarrow> session_view" where
  "view_of now s =
     \<lparr>v_app = app s,
      v_albumArt = albumArt s,
      v_currentSong = currentSong s,
      v_currentArtist = currentArtist s,
      v_album = album s,
      v_active = active s,
      v_playing = playing s,
      v_songDuration = songDuration s,
      v_user = user s,
      v_artistImage = artistImage s,
      v_position = currentPosition now s,
      v_duration = songDuration s,
      v_totalPlayTime = totalDuration now s,
      v_status = status_string s,
      v_genre = str_or_null (genre s),
      v_year = num_or_null (year s),
      v_label = str_or_null (label s),
      v_trackCount = num_or_null (trackCount s),
      v_albumDescription = str_or_null (albumDescription s),
      v_artistBio = str_or_null (artistBio s)\<rparr>"

definition get_session :: "string \<Rightarrow> int \<Rightarrow> server \<Rightarrow> response" where
  "get_session sid now st =
     (case lookup_session st sid of
        Missing \<Rightarrow> NotFound
      | Inherited \<Rightarrow> ViewOfBuiltin
      | Own s \<Rightarrow> View (view_of now s))"

subsection \<open>POST /session\<close>

text \<open>
  The handler binds, by destructuring \<open>req.body\<close> (lines 209 to 226), exactly the names
  below. Reading an identifier that no enclosing scope binds throws a
  \<open>ReferenceError\<close>.
\<close>

definition post_bindings :: "string list" where
  "post_bindings =
     [''app'', ''song'', ''artist'', ''album'', ''albumArt'', ''duration'', ''position'',
      ''playing'', ''user'', ''genre'', ''year'', ''label'', ''trackCount'',
      ''albumDescription'', ''artistBio'']"

definition read_identifier :: "string list \<Rightarrow> string \<Rightarrow> 'a \<Rightarrow> js_error + 'a" where
  "read_identifier scope name v = (if name \<in> set scope then Inr v else Inl (ReferenceError name))"

text \<open>The object literal of lines 236 to 265, given the value read for \<open>artistImage\<close>.\<close>

definition new_session :: "int \<Rightarrow> post_body \<Rightarrow> string field \<Rightarrow> session" where
  "new_session now body img =
     \<lparr>app = str_default (req_app body) [],
      albumArt = str_default (ensureHttps (req_albumArt body)) [],
      currentSong = str_or_null (req_song body),
      currentArtist = str_or_null (req_artist body),
      album = str_or_null (req_album body),
      active = True,
      playing = truthy_bool (req_playing body),
      songPosition = num_default (req_position body) 0,
      songDuration = num_default (req_duration body) 0,
      lastPlayStart = anchor (req_playing body) now,
      totalPlayTime = 0,
      createdAt = now,
      lastUpdated = now,
      user = copy_user (req_user body),
      genre = str_or_null (opt_of_field (req_genre body)),
      year = num_or_null (opt_of_field (req_year body)),
      label = str_or_null (opt_of_field (req_label body)),
      trackCount = num_or_null (opt_of_field (req_trackCount body)),
      albumDescription = str_or_null (opt_of_field (req_albumDescription body)),
      artistBio = str_or_null (opt_of_field (req_artistBio body)),
      artistImage = str_or_null (ensureHttps (opt_of_field img))\<rparr>"

definition initial_track :: "post_body \<Rightarrow> string field \<Rightarrow> track_data" where
  "initial_track body img =
     \<lparr>td_song = req_song body,
      td_artist = req_artist body,
      td_album = req_album body,
      td_albumArt = req_albumArt body,
      td_app = req_app body,
      td_duration = req_duration body,
      td_user = req_user body,
      td_genre = opt_of_field (req_genre body),
      td_year = opt_of_field (req_year body),
      td_label = opt_of_field (req_label body),
      td_artistImage = opt_of_field img\<rparr>"

text \<open>
  \<open>app.post("/session")\<close>. The id is the handler's \<open>Math.random()\<close> string. After the
  guard on \<open>app\<close>, the right-hand side of \<open>sessions[id] = {...}\<close> is evaluated before the
  assignment; its last property reads the identifier \<open>artistImage\<close>.
\<close>

definition post_session :: "string \<Rightarrow> int \<Rightarrow> post_body \<Rightarrow> server \<Rightarrow> response \<times> server" where
  "post_session sid now body st =
     (if \<not> truthy_str (req_app body) then (BadRequest, st)
      else
        (case read_identifier post_bindings ''artistImage'' (req_artistImage body) of
           Inl e \<Rightarrow> (Uncaught e, st)
         | Inr img \<Rightarrow>
             (Created sid (''/s/'' @ sid),
              st\<lparr>sessions := (sessions st)(sid \<mapsto> new_session now body img),
                 history :=
                   (if truthy_str (req_song body)
                    then addToHistory now (initial_track body img) (history st)
                    else history st)\<rparr>)))"

subsection \<open>The interval timers and runs of the server\<close>

text \<open>
  The sweep of lines 175 to 191, which runs every five minutes: it deletes the inactive
  sessions created more than an hour ago and the active sessions not updated for more
  than six hours. \<open>Object.keys(sessions)\<close> lists the stored sessions only.
\<close>

definition cleanup :: "int \<Rightarrow> server \<Rightarrow> server" where
  "cleanup now st =
     st\<lparr>sessions :=
          (\<lambda>sid. case sessions st sid of
                   None \<Rightarrow> None
                 | Some s \<Rightarrow>
                     if \<not> active s \<and> now - createdAt s > 3600000 then None
                     else if active s \<and> now - lastUpdated s > 21600000 then None
                     else Some s)\<rparr>"

text \<open>
  The sweep of lines 194 to 202, which runs every minute: an active, playing session not
  updated for more than two minutes gets \<open>playing = false\<close>, and nothing else of it is
  written.
\<close>

definition auto_pause :: "int \<Rightarrow> server \<Rightarrow> server" where
  "auto_pause now st =
     st\<lparr>sessions :=
          (\<lambda>sid. case sessions st sid of
                   None \<Rightarrow> None
                 | Some s \<Rightarrow>
                     if active s \<and> playing s \<and> now - lastUpdated s > 120000
                     then Some (s\<lparr>playing := False\<rparr>)
                     else Some s)\<rparr>"

text \<open>
  The server runs one callback at a time. The runs considered below are sequences of
  events, each with the clock reading at which it runs: a PUT request, or a tick of one
  of the two timers. The creation, the reading and the end of a session are not events
  of these runs.
\<close>

datatype event = PutRequest string int put_body | AutoPauseTick int | CleanupTick int

fun handle :: "event \<Rightarrow> server \<Rightarrow> server" where
  "handle (PutRequest sid now body) st = snd (put_session sid now body st)"
| "handle (AutoPauseTick now) st = auto_pause now st"
| "handle (CleanupTick now) st = cleanup now st"

fun serve :: "event list \<Rightarrow> server \<Rightarrow> server" where
  "serve [] st = st"
| "serve (e # es) st = serve es (handle e st)"

section \<open>The desktop clients\<close>

text \<open>
  Two clients poll the operating system for the current track and drive the backend:
  the Electron client (livia-app/src/auto-launch.js, the tray application's main
  script) and the Windows client (the C\# \<open>Program\<close> class that follows the build script
  in build.bat).
\<close>

subsection \<open>Text helpers\<close>

text \<open>\<open>trim()\<close> and \<open>Trim()\<close> remove white space at both ends; on ASCII text the white space
  characters are the tab, the line feed, the vertical tab, the form feed, the carriage
  return and the space.\<close>

definition is_space :: "char \<Rightarrow> bool" where
  "is_space c = (c \<in> set [CHR 0x09, CHR 0x0A, CHR 0x0B, CHR 0x0C, CHR 0x0D, CHR '' ''])"

definition trim :: "string \<Rightarrow> string" where
  "trim s = rev (dropWhile is_space (rev (dropWhile is_space s)))"

text \<open>\<open>lower.StartsWith(p)\<close>\<close>

definition StartsWith :: "string \<Rightarrow> string \<Rightarrow> bool" where
  "StartsWith s p = (take (length p) s = p)"

text \<open>\<open>string.IsNullOrWhiteSpace(text)\<close>\<close>

definition IsNullOrWhiteSpace :: "string option \<Rightarrow> bool" where
  "IsNullOrWhiteSpace text = (case text of None \<Rightarrow> True | Some t \<Rightarrow> filter (\<lambda>c. \<not> is_space c) t = [])"

subsection \<open>The placeholder classifiers\<close>

text \<open>\<open>isPlaceholder(text)\<close> of the Electron client (auto-launch.js, lines 933 to 943).\<close>

definition isPlaceholder :: "string option \<Rightarrow> bool" where
  "isPlaceholder text =
     (case text of
        None \<Rightarrow> True
      | Some t \<Rightarrow>
          if t = [] then True
          else
            let lower = trim (toLowerCase t)
            in lower = ''connecting...'' \<or>
               lower = ''loading...'' \<or>
               lower = ''buffering...'' \<or>
               lower = ''unknown'' \<or>
               lower = ''advertisement'' \<or>
               lower = ''ad'' \<or>
               length t < 2)"

text \<open>\<open>IsPlaceholderText(text)\<close> of the Windows client (build.bat, lines 133 to 154).\<close>

definition IsPlaceholderText :: "string option \<Rightarrow> bool" where
  "IsPlaceholderText text =
     (case text of
        None \<Rightarrow> True
      | Some t \<Rightarrow>
          if IsNullOrWhiteSpace (Some t) then True
          else
            let lower = trim (toLowerCase t)
            in lower = ''connecting...''
               \<or> lower = ''connecting''
               \<or> lower = ''loading...''
               \<or> lower = ''loading''
               \<or> lower = ''buffering...''
               \<or> lower = ''buffering''
               \<or> lower = ''unknown''
               \<or> lower = ''unknown artist''
               \<or> lower = ''unknown title''
               \<or> lower = ''advertisement''
               \<or> lower = ''ad''
               \<or> StartsWith lower ''connecting to''
               \<or> StartsWith lower ''loading''
               \<or> length t < 2)"

subsection \<open>Song identity on the clients\<close>

text \<open>Both clients build the id of the current song as \<open>`${title}|${artist}`\<close>
  (auto-launch.js line 681, build.bat lines 565 and 639) and take the song as changed when
  the id differs from the one remembered in \<open>lastSongId\<close> (lines 685 and 645).\<close>

definition songId :: "string \<Rightarrow> string \<Rightarrow> string" where
  "songId title artist = title @ ''|'' @ artist"

definition song_changed :: "string \<Rightarrow> string \<Rightarrow> string \<Rightarrow> bool" where
  "song_changed lastSongId title artist = (songId title artist \<noteq> lastSongId)"

text \<open>The normalisation that the specification names for track identity: lower case,
  surrounding white space removed.\<close>

definition spec_normalize :: "string \<Rightarrow> string" where
  "spec_normalize s = trim (toLowerCase s)"

subsection \<open>Duration resolution in the Windows client\<close>

text \<open>
  \<open>GetValidDuration(session, timeline)\<close> (build.bat, lines 806 to 848). The durations the
  operating system reports are given as a function \<open>reads\<close>: \<open>reads 0\<close> is the duration of
  the \<open>timeline\<close> argument and \<open>reads k\<close>, for \<open>k\<close> from 1 to 3, is what the \<open>k\<close>-th call of
  \<open>session.GetTimelineProperties()\<close> in the retry loop returns. The result is the resolved
  duration, the new value of the static variable \<open>lastKnownDuration\<close> and the delays
  (in milliseconds) that were awaited, in order.
\<close>

function retry_duration :: "(nat \<Rightarrow> int) \<Rightarrow> nat \<Rightarrow> int list \<Rightarrow> int option \<times> int list" where
  "retry_duration reads attempt slept =
     (if attempt < 3
      then (let slept1 = slept @ [100 * (int attempt + 1)];
                duration = reads (attempt + 1)
            in if duration > 0 then (Some duration, slept1)
               else retry_duration reads (attempt + 1) slept1)
      else (None, slept))"
  by pat_completeness auto
termination
  by (relation "measure (\<lambda>(reads, attempt, slept). 3 - attempt)") auto

declare retry_duration.simps [simp del]

definition GetValidDuration :: "(nat \<Rightarrow> int) \<Rightarrow> int \<Rightarrow> int \<times> int \<times> int list" where
  "GetValidDuration reads lastKnownDuration =
     (let duration = reads 0
      in if duration > 0 then (duration, duration, [])
         else (case retry_duration reads 0 [] of
                 (Some d, slept) \<Rightarrow> (d, d, slept)
               | (None, slept) \<Rightarrow>
                   if lastKnownDuration > 0 then (lastKnownDuration, lastKnownDuration, slept)
                   else (0, lastKnownDuration, slept)))"

subsection \<open>The polling loop of the Windows client\<close>

text \<open>
  One iteration of \<open>MainLoop\<close> (build.bat, lines 446 to 799), restricted to the variables
  that the presence timer and the duration cache read or write. Times are in
  milliseconds: \<open>TimeSpan.FromSeconds(d)\<close> is \<open>d * 1000\<close> and \<open>TimeSpan.FromMinutes(3)\<close> is
  \<open>180000\<close>. The iteration is the one in which the calls to the operating system return
  normally; the backend calls catch their own exceptions.
\<close>

record loop_state =
  lastSongId :: string
  currentAppId :: "string option"
  currentSessionId :: "string option"
  lastPlayingState :: bool
  presenceStartTime :: "int option"
  presenceEndTime :: "int option"
  lastKnownDuration :: int

text \<open>The loop's local variables before the first iteration (lines 432 to 444) and the
  static \<open>lastKnownDuration\<close> (line 64).\<close>

definition initial_loop_state :: loop_state where
  "initial_loop_state =
     \<lparr>lastSongId = [], currentAppId = None, currentSessionId = None,
      lastPlayingState = False, presenceStartTime = None, presenceEndTime = None,
      lastKnownDuration = 0\<rparr>"

text \<open>What the selected media session reports: the application id, whether its status is
  Playing (otherwise Paused), the media properties and the timeline position.\<close>

record source =
  src_app :: string
  src_playing :: bool
  src_title :: string
  src_artist :: string
  src_position :: int

text \<open>
  What one iteration observes: the session selected by the scan of lines 460 to 489
  (\<open>None\<close> when no whitelisted application is playing or paused), the duration reads seen
  by each of the three calls of \<open>GetValidDuration\<close>, the id returned by \<open>CreateSession\<close>
  (\<open>None\<close> when the call failed) and the clock.
\<close>

record observation =
  active_source :: "source option"
  reads_on_start :: "nat \<Rightarrow> int"
  reads_on_toggle :: "nat \<Rightarrow> int"
  reads_on_beat :: "nat \<Rightarrow> int"
  created_session :: "string option"
  utc_now :: int

datatype presence_call = SetPresence int int | ClearPresence | NoCall

definition activeAppId :: "observation \<Rightarrow> string option" where
  "activeAppId ob = map_option src_app (active_source ob)"

definition isPlaying :: "observation \<Rightarrow> bool" where
  "isPlaying ob = (case active_source ob of None \<Rightarrow> False | Some a \<Rightarrow> src_playing a)"

text \<open>Lines 491 to 592. The second component tells that the iteration ended at the
  \<open>continue\<close> of line 518.\<close>

definition on_app_change :: "observation \<Rightarrow> loop_state \<Rightarrow> loop_state \<times> bool" where
  "on_app_change ob st =
     (if activeAppId ob \<noteq> currentAppId st
      then
        (let st1 = (if currentSessionId st \<noteq> None then st\<lparr>currentSessionId := None\<rparr> else st)
         in case active_source ob of
              Some a \<Rightarrow>
                if IsPlaceholderText (Some (src_title a)) \<or> IsPlaceholderText (Some (src_artist a))
                then (st1\<lparr>currentAppId := activeAppId ob, lastPlayingState := isPlaying ob\<rparr>, True)
                else
                  (let (duration, known, slept) =
                         GetValidDuration (reads_on_start ob) (lastKnownDuration st1);
                       st2 = st1\<lparr>lastKnownDuration := known,
                                 currentSessionId := created_session ob\<rparr>;
                       st3 = (if created_session ob \<noteq> None
                              then st2\<lparr>lastSongId := songId (src_title a) (src_artist a)\<rparr>
                              else st2)
                   in (st3\<lparr>lastPlayingState := isPlaying ob,
                           presenceStartTime := None,
                           presenceEndTime := None,
                           currentAppId := activeAppId ob\<rparr>, False))
            | None \<Rightarrow> (st1\<lparr>lastKnownDuration := 0, currentAppId := activeAppId ob\<rparr>, False))
      else (st, False))"

text \<open>Lines 594 to 624.\<close>

definition on_play_state_change :: "observation \<Rightarrow> loop_state \<Rightarrow> loop_state" where
  "on_play_state_change ob st =
     (if active_source ob \<noteq> None \<and> currentSessionId st \<noteq> None
         \<and> isPlaying ob \<noteq> lastPlayingState st
      then
        (let (duration, known, slept) =
               GetValidDuration (reads_on_toggle ob) (lastKnownDuration st)
         in st\<lparr>lastKnownDuration := known,
              lastPlayingState := isPlaying ob,
              presenceStartTime := None,
              presenceEndTime := None\<rparr>)
      else st)"

text \<open>Lines 707 to 726: the timestamps are computed when one of them is missing, or when
  the end is not after the start and a duration is available.\<close>

definition must_recompute :: "loop_state \<Rightarrow> int \<Rightarrow> bool" where
  "must_recompute st duration =
     (case (presenceStartTime st, presenceEndTime st) of
        (Some s, Some e) \<Rightarrow> e \<le> s \<and> duration > 0
      | _ \<Rightarrow> True)"

definition compute_timestamps :: "observation \<Rightarrow> source \<Rightarrow> int \<Rightarrow> loop_state \<Rightarrow> loop_state" where
  "compute_timestamps ob a duration st =
     (let start = utc_now ob - src_position a
      in st\<lparr>presenceStartTime := Some start,
            presenceEndTime :=
              Some (if duration > 0 then start + duration * 1000 else start + 180000)\<rparr>)"

text \<open>Lines 626 to 772.\<close>

definition on_heartbeat :: "observation \<Rightarrow> loop_state \<Rightarrow> loop_state \<times> presence_call" where
  "on_heartbeat ob st =
     (case active_source ob of
        None \<Rightarrow> (st, ClearPresence)
      | Some a \<Rightarrow>
          if \<not> IsNullOrWhiteSpace (Some (src_title a))
             \<and> \<not> IsPlaceholderText (Some (src_title a))
             \<and> \<not> IsPlaceholderText (Some (src_artist a))
          then
            (let (duration, known, slept) =
                   GetValidDuration (reads_on_beat ob) (lastKnownDuration st);
                 st1 = st\<lparr>lastKnownDuration := known\<rparr>;
                 st2 = (if songId (src_title a) (src_artist a) \<noteq> lastSongId st1
                        then st1\<lparr>lastSongId := songId (src_title a) (src_artist a),
                                 lastKnownDuration := duration,
                                 presenceStartTime := None,
                                 presenceEndTime := None\<rparr>
                        else st1)
             in if isPlaying ob
                then
                  (let st3 = (if must_recompute st2 duration
                              then compute_timestamps ob a duration st2
                              else st2)
                   in case (presenceStartTime st3, presenceEndTime st3) of
                        (Some s, Some e) \<Rightarrow> (st3, SetPresence s e)
                      | _ \<Rightarrow> (st3, NoCall))
                else (st2, ClearPresence))
          else (st, ClearPresence))"

definition iteration :: "observation \<Rightarrow> loop_state \<Rightarrow> loop_state \<times> presence_call" where
  "iteration ob st =
     (case on_app_change ob st of
        (st1, True) \<Rightarrow> (st1, NoCall)
      | (st1, False) \<Rightarrow> on_heartbeat ob (on_play_state_change ob st1))"

text \<open>The state after a sequence of iterations, from the initial state.\<close>

fun run :: "observation list \<Rightarrow> loop_state \<Rightarrow> loop_state" where
  "run [] st = st"
| "run (ob # obs) st = run obs (fst (iteration ob st))"

definition presence_pair :: "loop_state \<Rightarrow> int option \<times> int option" where
  "presence_pair st = (presenceStartTime st, presenceEndTime st)"

subsection \<open>The polling loop of the Electron client\<close>

text \<open>
  One iteration of \<open>startMainLoop\<close> (auto-launch.js, lines 671 to 787), with the session
  calls \<open>createSession\<close>, \<open>updateSession\<close>, \<open>endSession\<close> and the presence calls
  \<open>setDiscordPresence\<close>, \<open>clearDiscordPresence\<close>. The tray and notification calls have no
  effect on the variables below and are left out. The iteration returns the requests it
  sent to the backend, in order.
\<close>

text \<open>The object returned by the media detector.\<close>

record media =
  m_app :: string
  m_title :: string
  m_artist :: string
  m_album :: string
  m_state :: string
  m_position :: int
  m_duration :: int

text \<open>The object returned by \<open>getAlbumInfo\<close>.\<close>

record album_info =
  artUrl :: "string option"
  albumName :: "string option"
  cleanedSong :: "string option"
  cleanedArtist :: "string option"
  info_genre :: "string option"
  info_year :: "int option"
  info_label :: "string option"
  info_trackCount :: "int option"
  info_albumDescription :: "string option"
  info_artistBio :: "string option"
  info_artistImage :: "string option"

text \<open>
  The module-level variables of the client. \<open>activity\<close> is what the client last asked
  Discord to display: the \<open>start\<close> and \<open>end\<close> timestamps (in seconds) of the last
  \<open>SET_ACTIVITY\<close> request, or \<open>None\<close> after \<open>clearActivity\<close> and before the first request.
\<close>

record electron =
  e_currentSessionId :: "string option"
  e_lastSongId :: string
  e_lastPlayingState :: bool
  lastAlbumArtUrl :: "string option"
  lastAlbumName :: "string option"
  lastCleanedSong :: "string option"
  lastCleanedArtist :: "string option"
  lastGenre :: "string option"
  lastYear :: "int option"
  lastLabel :: "string option"
  lastTrackCount :: "int option"
  lastAlbumDescription :: "string option"
  lastArtistBio :: "string option"
  lastArtistImage :: "string option"
  discordUser :: user_info
  activity :: "(int \<times> int option) option"

text \<open>The state of \<open>discordClient\<close>: \<open>null\<close>, created without a user, or connected.\<close>

datatype discord = NoClient | NoUser | Connected

text \<open>What one iteration observes: the detector's result, the result of \<open>getAlbumInfo\<close>
  (\<open>None\<close> when it throws), the id returned by \<open>createSession\<close> (\<open>None\<close> when the request
  failed), the state of the Discord client and the clock.\<close>

record poll =
  detected :: "media option"
  album_result :: "album_info option"
  create_result :: "string option"
  discord_client :: discord
  clock :: int

datatype request = Create post_body | Update put_body | End

definition field_of :: "'a option \<Rightarrow> 'a field" where
  "field_of v = (case v of None \<Rightarrow> Null | Some x \<Rightarrow> Given x)"

text \<open>The JSON body of \<open>updateSession\<close> (lines 834 to 850).\<close>

definition update_body :: "media \<Rightarrow> bool \<Rightarrow> electron \<Rightarrow> put_body" where
  "update_body m playing_now st =
     \<lparr>req_song = Some (str_default (lastCleanedSong st) (m_title m)),
      req_artist = Some (str_default (lastCleanedArtist st) (m_artist m)),
      req_album = Some (str_default (lastAlbumName st) (m_album m)),
      req_albumArt = Some (str_default (lastAlbumArtUrl st) []),
      req_playing = Some playing_now,
      req_duration = Some (num_default (Some (m_duration m)) 0),
      req_position = Some (num_default (Some (m_position m)) 0),
      req_genre = field_of (lastGenre st),
      req_year = field_of (lastYear st),
      req_label = field_of (lastLabel st),
      req_trackCount = field_of (lastTrackCount st),
      req_albumDescription = field_of (lastAlbumDescription st),
      req_artistBio = field_of (lastArtistBio st),
      req_artistImage = field_of (lastArtistImage st)\<rparr>"

text \<open>The JSON body of \<open>createSession\<close> (lines 796 to 814).\<close>

definition create_body :: "media \<Rightarrow> bool \<Rightarrow> electron \<Rightarrow> post_body" where
  "create_body m playing_now st =
     put_body.extend (update_body m playing_now st)
       (post_body.fields
          (Some (str_default (Some (m_app m)) ''Music''))
          (if truthy_str (user_id (discordUser st)) then Some (discordUser st) else None))"

text \<open>\<open>setDiscordPresence(media)\<close> (lines 870 to 906) and \<open>clearDiscordPresence()\<close>
  (lines 908 to 916).\<close>

definition setDiscordPresence :: "poll \<Rightarrow> media \<Rightarrow> electron \<Rightarrow> electron" where
  "setDiscordPresence p m st =
     (if discord_client p \<noteq> Connected then st
      else
        (let now = clock p;
             startTimestamp = (if m_position m \<noteq> 0 then now - m_position m * 1000 else now);
             endTimestamp = (if m_duration m \<noteq> 0
                             then Some (startTimestamp + m_duration m * 1000) else None)
         in st\<lparr>activity :=
                 Some (startTimestamp div 1000,
                       (case endTimestamp of
                          None \<Rightarrow> None
                        | Some e \<Rightarrow> if e \<noteq> 0 then Some (e div 1000) else None))\<rparr>))"

definition clearDiscordPresence :: "poll \<Rightarrow> electron \<Rightarrow> electron" where
  "clearDiscordPresence p st = (if discord_client p = NoClient then st else st\<lparr>activity := None\<rparr>)"

text \<open>Lines 684 to 738, the branch \<open>songId !== lastSongId\<close>. The third component tells that
  \<open>getAlbumInfo\<close> threw, which ends the iteration in the \<open>catch\<close> of line 781.\<close>

definition on_song_changed :: "poll \<Rightarrow> media \<Rightarrow> electron \<Rightarrow> electron \<times> request list \<times> bool" where
  "on_song_changed p m st =
     (if songId (m_title m) (m_artist m) \<noteq> e_lastSongId st
      then
        (let st1 = st\<lparr>e_lastSongId := songId (m_title m) (m_artist m)\<rparr>
         in case album_result p of
              None \<Rightarrow> (st1, [], True)
            | Some info \<Rightarrow>
                (let st2 = st1\<lparr>lastAlbumArtUrl := artUrl info,
                               lastAlbumName := str_or (albumName info) (Some (m_album m)),
                               lastCleanedSong := str_or (cleanedSong info) (Some (m_title m)),
                               lastCleanedArtist := str_or (cleanedArtist info) (Some (m_artist m)),
                               lastGenre := str_or_null (info_genre info),
                               lastYear := num_or_null (info_year info),
                               lastLabel := str_or_null (info_label info),
                               lastTrackCount := num_or_null (info_trackCount info),
                               lastAlbumDescription := str_or_null (info_albumDescription info),
                               lastArtistBio := str_or_null (info_artistBio info),
                               lastArtistImage := str_or_null (info_artistImage info)\<rparr>;
                     playing_now = (m_state m = ''playing'');
                     (st3, sent) =
                       (if \<not> truthy_str (e_currentSessionId st2)
                        then (st2\<lparr>e_currentSessionId := create_result p\<rparr>,
                              [Create (create_body m playing_now st2)])
                        else (st2, [Update (update_body m playing_now st2)]));
                     st4 = (if playing_now then setDiscordPresence p m st3 else st3)
                 in (st4, sent, False)))
      else (st, [], False))"

text \<open>Lines 740 to 757, the branch \<open>isPlaying !== lastPlayingState\<close>.\<close>

definition on_play_state_changed :: "poll \<Rightarrow> media \<Rightarrow> electron \<Rightarrow> electron \<times> request list" where
  "on_play_state_changed p m st =
     (let playing_now = (m_state m = ''playing'')
      in if playing_now \<noteq> e_lastPlayingState st
         then
           (let st1 = st\<lparr>e_lastPlayingState := playing_now\<rparr>;
                sent = (if truthy_str (e_currentSessionId st1)
                        then [Update (update_body m playing_now st1)] else [])
            in (if playing_now then setDiscordPresence p m st1
                else clearDiscordPresence p st1, sent))
         else (st, []))"

text \<open>Lines 759 to 762, the heartbeat.\<close>

definition heartbeat :: "media \<Rightarrow> electron \<Rightarrow> request list" where
  "heartbeat m st =
     (if truthy_str (e_currentSessionId st) \<and> m_state m = ''playing''
         \<and> songId (m_title m) (m_artist m) = e_lastSongId st
      then [Update (update_body m (m_state m = ''playing'') st)]
      else [])"

text \<open>Lines 764 to 779, the branch taken when nothing is playing.\<close>

definition on_no_media :: "poll \<Rightarrow> electron \<Rightarrow> electron \<times> request list" where
  "on_no_media p st =
     (if truthy_str (e_currentSessionId st) \<or> e_lastSongId st \<noteq> []
      then (clearDiscordPresence p
              ((if truthy_str (e_currentSessionId st)
                then st\<lparr>e_currentSessionId := None\<rparr> else st)
                 \<lparr>e_lastSongId := [], e_lastPlayingState := False\<rparr>),
            if truthy_str (e_currentSessionId st) then [End] else [])
      else (st, []))"

text \<open>The guard of line 680: \<open>media && media.title && !isPlaceholder(media.title)\<close>.\<close>

definition is_track :: "media option \<Rightarrow> bool" where
  "is_track d = (case d of None \<Rightarrow> False | Some m \<Rightarrow> m_title m \<noteq> [] \<and> \<not> isPlaceholder (Some (m_title m)))"

definition poll_once :: "poll \<Rightarrow> electron \<Rightarrow> electron \<times> request list" where
  "poll_once p st =
     (case detected p of
        None \<Rightarrow> on_no_media p st
      | Some m \<Rightarrow>
          if is_track (Some m)
          then
            (case on_song_changed p m st of
               (st1, sent1, True) \<Rightarrow> (st1, sent1)
             | (st1, sent1, False) \<Rightarrow>
                 (case on_play_state_changed p m st1 of
                    (st2, sent2) \<Rightarrow> (st2, sent1 @ sent2 @ heartbeat m st2)))
          else on_no_media p st)"

section \<open>Derived notions and concrete inputs\<close>

text \<open>A timer tick that runs no later than two minutes after the instant \<open>t\<close>.\<close>

fun tick_within :: "int \<Rightarrow> event \<Rightarrow> bool" where
  "tick_within t (AutoPauseTick now) = (now - t \<le> 120000)"
| "tick_within t (CleanupTick now) = (now - t \<le> 120000)"
| "tick_within t (PutRequest sid now body) = False"

text \<open>The stored timestamps of the Windows client are ordered when the end is after the
  start.\<close>

definition timer_ordered :: "loop_state \<Rightarrow> bool" where
  "timer_ordered st =
     (case (presenceStartTime st, presenceEndTime st) of
        (Some s, Some e) \<Rightarrow> s < e
      | _ \<Rightarrow> True)"

text \<open>The Windows client holds a session only while an application is current.\<close>

definition session_has_app :: "loop_state \<Rightarrow> bool" where
  "session_has_app st = (currentSessionId st = None \<or> currentAppId st \<noteq> None)"

text \<open>A finite sequence of duration reads; past its end the reads are 0.\<close>

definition reads_of :: "int list \<Rightarrow> nat \<Rightarrow> int" where
  "reads_of xs k = (if k < length xs then xs ! k else 0)"

text \<open>The empty server, a body with no field, and the body \<open>{"app": "Spotify"}\<close>.\<close>

definition empty_server :: server where
  "empty_server = \<lparr>sessions = Map.empty, history = []\<rparr>"

definition empty_body :: put_body where
  "empty_body =
     \<lparr>req_song = None, req_artist = None, req_album = None, req_albumArt = None,
      req_playing = None, req_duration = None, req_position = None, req_genre = Absent,
      req_year = Absent, req_label = Absent, req_trackCount = Absent,
      req_albumDescription = Absent, req_artistBio = Absent, req_artistImage = Absent\<rparr>"

definition spotify_body :: post_body where
  "spotify_body = put_body.extend empty_body (post_body.fields (Some ''Spotify'') None)"

text \<open>A session that has been playing a 180 second track from its start since the
  instant 1000, stored under the id \<open>a1\<close>.\<close>

definition demo_session :: session where
  "demo_session =
     \<lparr>app = ''Spotify'', albumArt = [], currentSong = Some ''Paranoid Android'',
      currentArtist = Some ''Radiohead'', album = None, active = True, playing = True,
      songPosition = 0, songDuration = 180, lastPlayStart = Some 1000, totalPlayTime = 0,
      createdAt = 1000, lastUpdated = 1000, user = None, genre = None, year = None,
      label = None, trackCount = None, albumDescription = None, artistBio = None,
      artistImage = None\<rparr>"

definition demo_server :: server where
  "demo_server = \<lparr>sessions = [''a1'' \<mapsto> demo_session], history = []\<rparr>"

text \<open>The server after the PUT \<open>{"position": -5, "playing": false}\<close> to the session \<open>a1\<close>,
  and the session \<open>a1\<close> of that server.\<close>

definition rewind_body :: put_body where
  "rewind_body = empty_body\<lparr>req_position := Some (- 5), req_playing := Some False\<rparr>"

definition rewound_server :: server where
  "rewound_server = snd (put_session ''a1'' 3000 rewind_body demo_server)"

definition rewound_session :: session where
  "rewound_session =
     demo_session\<lparr>playing := False, lastPlayStart := None, songPosition := - 5,
                   lastUpdated := 3000\<rparr>"

text \<open>The bodies \<open>{"song": "Karma Police"}\<close>, \<open>{"song": "Karma Police", "playing": false}\<close>
  and \<open>{"playing": true}\<close>.\<close>

definition karma_body :: put_body where
  "karma_body = empty_body\<lparr>req_song := Some ''Karma Police''\<rparr>"

definition karma_paused_body :: put_body where
  "karma_paused_body = empty_body\<lparr>req_song := Some ''Karma Police'', req_playing := Some False\<rparr>"

definition playing_body :: put_body where
  "playing_body = empty_body\<lparr>req_playing := Some True\<rparr>"

text \<open>The server after the PUT \<open>{"song": "Karma Police"}\<close> to the session \<open>a1\<close>.\<close>

definition stalled_server :: server where
  "stalled_server = snd (put_session ''a1'' 5000 karma_body demo_server)"

text \<open>The session \<open>a1\<close> of that server: still playing, with no \<open>lastPlayStart\<close>.\<close>

definition stalled_session :: session where
  "stalled_session =
     demo_session\<lparr>currentSong := Some ''Karma Police'', songPosition := 0,
                   lastPlayStart := None, lastUpdated := 5000\<rparr>"

text \<open>A server whose history already holds an entry for Karma Police by Radiohead.\<close>

definition karma_entry :: history_entry where
  "karma_entry =
     \<lparr>h_id = ''karma police-radiohead'', h_song = ''Karma Police'', h_artist = ''Radiohead'',
      h_album = [], h_albumArt = [], h_app = ''Spotify'', h_duration = 264, playedAt = 500,
      playCount = 1, h_user = None, h_genre = None, h_year = None, h_label = None,
      h_artistImage = None\<rparr>"

definition history_server :: server where
  "history_server = \<lparr>sessions = [''a1'' \<mapsto> demo_session], history = [karma_entry]\<rparr>"

text \<open>Two observations of the Windows client, three seconds apart: Spotify playing the
  same track, 30 and 33 seconds into it, with a reported duration of 180 seconds.\<close>

definition first_observation :: observation where
  "first_observation =
     \<lparr>active_source = Some \<lparr>src_app = ''Spotify.exe'', src_playing = True,
                             src_title = ''Paranoid Android'', src_artist = ''Radiohead'',
                             src_position = 30000\<rparr>,
      reads_on_start = reads_of [180], reads_on_toggle = reads_of [180],
      reads_on_beat = reads_of [180], created_session = Some ''a1'', utc_now = 1000000\<rparr>"

definition second_observation :: observation where
  "second_observation =
     \<lparr>active_source = Some \<lparr>src_app = ''Spotify.exe'', src_playing = True,
                             src_title = ''Paranoid Android'', src_artist = ''Radiohead'',
                             src_position = 33000\<rparr>,
      reads_on_start = reads_of [180], reads_on_toggle = reads_of [180],
      reads_on_beat = reads_of [0, 0, 0, 0], created_session = None, utc_now = 1003500\<rparr>"

text \<open>Three observations of the Windows loop while the backend cannot be reached, so that
  no session is created: the track is found paused, then playing 20 seconds into it, then
  playing 23.7 seconds into it 3.5 seconds later.\<close>

definition offline_paused :: observation where
  "offline_paused =
     \<lparr>active_source = Some \<lparr>src_app = ''Spotify.exe'', src_playing = False,
                             src_title = ''Paranoid Android'', src_artist = ''Radiohead'',
                             src_position = 10000\<rparr>,
      reads_on_start = reads_of [180], reads_on_toggle = reads_of [180],
      reads_on_beat = reads_of [180], created_session = None, utc_now = 990000\<rparr>"

definition offline_playing :: observation where
  "offline_playing =
     \<lparr>active_source = Some \<lparr>src_app = ''Spotify.exe'', src_playing = True,
                             src_title = ''Paranoid Android'', src_artist = ''Radiohead'',
                             src_position = 20000\<rparr>,
      reads_on_start = reads_of [180], reads_on_toggle = reads_of [180],
      reads_on_beat = reads_of [180], created_session = None, utc_now = 1000000\<rparr>"

definition offline_later :: observation where
  "offline_later =
     \<lparr>active_source = Some \<lparr>src_app = ''Spotify.exe'', src_playing = True,
                             src_title = ''Paranoid Android'', src_artist = ''Radiohead'',
                             src_position = 23700\<rparr>,
      reads_on_start = reads_of [180], reads_on_toggle = reads_of [180],
      reads_on_beat = reads_of [180], created_session = None, utc_now = 1003500\<rparr>"

text \<open>The Electron client while Spotify plays a track for which it has set an activity,
  and a poll that finds the same track playing three seconds later, with the duration
  read as 0.\<close>

definition electron_playing :: electron where
  "electron_playing =
     \<lparr>e_currentSessionId = Some ''a1'', e_lastSongId = ''Paranoid Android|Radiohead'',
      e_lastPlayingState = True, lastAlbumArtUrl = None, lastAlbumName = None,
      lastCleanedSong = Some ''Paranoid Android'', lastCleanedArtist = Some ''Radiohead'',
      lastGenre = None, lastYear = None, lastLabel = None, lastTrackCount = None,
      lastAlbumDescription = None, lastArtistBio = None, lastArtistImage = None,
      discordUser = \<lparr>user_id = None, username = None, displayName = None, avatarUrl = None\<rparr>,
      activity = Some (970, Some 1150)\<rparr>"

definition zero_duration_media :: media where
  "zero_duration_media =
     \<lparr>m_app = ''Spotify'', m_title = ''Paranoid Android'', m_artist = ''Radiohead'',
      m_album = [], m_state = ''playing'', m_position = 33, m_duration = 0\<rparr>"

definition same_track_poll :: poll where
  "same_track_poll =
     \<lparr>detected = Some zero_duration_media, album_result = None, create_result = None,
      discord_client = Connected, clock = 1003500\<rparr>"

section \<open>Session creation\<close>

text \<open>
  Whatever the body, a request that passes the guard on \<open>app\<close> never reaches the
  assignment to \<open>sessions[id]\<close>: the handler reads \<open>artistImage\<close>, which its destructuring
  does not bind, and the exception leaves the state as it was.
\<close>

lemma post_session_with_app:
  "truthy_str (req_app body) \<Longrightarrow>
     post_session sid now body st = (Uncaught (ReferenceError ''artistImage''), st)"
  by (simp add: post_session_def read_identifier_def post_bindings_def)

lemma post_session_without_app:
  "\<not> truthy_str (req_app body) \<Longrightarrow> post_session sid now body st = (BadRequest, st)"
  by (simp add: post_session_def)

text \<open>
  C1. The claim: every POST /session whose body has an \<open>app\<close> field is answered 200 with
  \<open>{sessionId, url}\<close> and stores a new active session. On the body \<open>{"app": "Spotify"}\<close>
  and the empty server the handler throws \<open>ReferenceError: artistImage is not defined\<close>,
  which is answered with status 500, and no session is stored.
\<close>

theorem C1_post_session_throws:
  "post_session ''k3x9a2bc'' 1000 spotify_body empty_server =
     (Uncaught (ReferenceError ''artistImage''), empty_server)
   \<and> status (fst (post_session ''k3x9a2bc'' 1000 spotify_body empty_server)) = 500
   \<and> sessions (snd (post_session ''k3x9a2bc'' 1000 spotify_body empty_server)) ''k3x9a2bc'' = None"
  by (simp add: post_session_def read_identifier_def post_bindings_def spotify_body_def
      empty_body_def empty_server_def truthy_str_def put_body.extend_def post_body.fields_def)

section \<open>Reading a session\<close>

lemma lookup_stored: "sessions st sid = Some s \<Longrightarrow> lookup_session st sid = Own s"
  by (simp add: lookup_session_def)

lemma rawPosition_cases:
  "rawPosition now s =
     (case lastPlayStart s of
        None \<Rightarrow> songPosition s
      | Some t \<Rightarrow> if playing s \<and> t \<noteq> 0 then songPosition s + (now - t) div 1000
                  else songPosition s)"
  by (simp add: rawPosition_def truthy_num_def elapsed_since_def split: option.splits)

lemma rawPosition_nonneg:
  assumes "0 \<le> songPosition s" "\<forall>t. lastPlayStart s = Some t \<longrightarrow> t \<le> now"
  shows "0 \<le> rawPosition now s"
proof (cases "lastPlayStart s")
  case None
  then show ?thesis using assms rawPosition_cases [of now s] by simp
next
  case (Some t)
  then have "0 \<le> (now - t) div 1000" using assms by simp
  then show ?thesis using assms Some rawPosition_cases [of now s] by simp
qed

text \<open>
  C2, as stated: the reported position is the stored position plus the time since
  \<open>lastPlayStart\<close> when the session is playing, and it is clamped to the interval from 0
  to \<open>songDuration\<close> whenever \<open>songDuration > 0\<close>. The handler only takes the minimum with
  the duration: after the PUT \<open>{"position": -5, "playing": false}\<close> the session's stored
  position is \<open>-5\<close>, its duration is 180, and GET reports the position \<open>-5\<close>. And the handler adds the elapsed time only
  when \<open>lastPlayStart\<close> is set: the session \<open>a1\<close> of \<open>stalled_server\<close> is playing with
  \<open>lastPlayStart\<close> \<open>null\<close>, and GET reports its position as 0 at the instant 6000 and
  still as 0 at the instant 60000.
\<close>

theorem C2_position_not_as_claimed:
  "sessions rewound_server ''a1'' = Some rewound_session
   \<and> get_session ''a1'' 6000 rewound_server = View (view_of 6000 rewound_session)
   \<and> songDuration rewound_session = 180
   \<and> v_position (view_of 6000 rewound_session) = - 5
   \<and> sessions stalled_server ''a1'' = Some stalled_session
   \<and> playing stalled_session
   \<and> lastPlayStart stalled_session = None
   \<and> get_session ''a1'' 6000 stalled_server = View (view_of 6000 stalled_session)
   \<and> v_position (view_of 6000 stalled_session) = 0
   \<and> get_session ''a1'' 60000 stalled_server = View (view_of 60000 stalled_session)
   \<and> v_position (view_of 60000 stalled_session) = 0"
  by (simp add: stalled_session_def get_session_def lookup_session_def view_of_def
      currentPosition_def rawPosition_def rewound_server_def rewound_session_def rewind_body_def
      demo_session_def stalled_server_def demo_server_def karma_body_def empty_body_def
      put_session_def put_update_def put_history_def apply_playing_def apply_metadata_def
      apply_song_info_def apply_song_change_def apply_position_def updateSongPosition_def
      songChanged_def anchor_def set_opt_def set_field_def truthy_bool_def truthy_num_def)

text \<open>
  C2, amended. For every stored session, GET reports the stored position, plus the whole
  seconds since \<open>lastPlayStart\<close> when the session is playing and \<open>lastPlayStart\<close> is set
  (neither \<open>null\<close> nor 0); when \<open>songDuration > 0\<close> the reported position is the minimum of
  that sum and \<open>songDuration\<close>, so it never exceeds \<open>songDuration\<close>; it is not below 0
  when the stored position is not negative and \<open>lastPlayStart\<close> is not in the future.
\<close>

theorem C2_reported_position:
  assumes "sessions st sid = Some s"
  shows "get_session sid now st = View (view_of now s)
    \<and> v_position (view_of now s) =
        (if 0 < songDuration s then min (rawPosition now s) (songDuration s)
         else rawPosition now s)
    \<and> rawPosition now s =
        (case lastPlayStart s of
           None \<Rightarrow> songPosition s
         | Some t \<Rightarrow> if playing s \<and> t \<noteq> 0 then songPosition s + (now - t) div 1000
                     else songPosition s)
    \<and> (0 < songDuration s \<longrightarrow> v_position (view_of now s) \<le> songDuration s)
    \<and> (0 \<le> songPosition s \<and> (\<forall>t. lastPlayStart s = Some t \<longrightarrow> t \<le> now)
         \<longrightarrow> 0 \<le> v_position (view_of now s))"
proof -
  have view: "get_session sid now st = View (view_of now s)"
    using assms by (simp add: get_session_def lookup_stored)
  have pos: "v_position (view_of now s) =
        (if 0 < songDuration s then min (rawPosition now s) (songDuration s)
         else rawPosition now s)"
    by (simp add: view_of_def currentPosition_def)
  have upper: "0 < songDuration s \<longrightarrow> v_position (view_of now s) \<le> songDuration s"
    using pos by simp
  have lower: "0 \<le> songPosition s \<and> (\<forall>t. lastPlayStart s = Some t \<longrightarrow> t \<le> now)
         \<longrightarrow> 0 \<le> v_position (view_of now s)"
    using pos rawPosition_nonneg [of s now] by auto
  show ?thesis
    using view pos rawPosition_cases [of now s] upper lower by blast
qed

theorem C2_reported_position_witness:
  "get_session ''a1'' 6500 demo_server = View (view_of 6500 demo_session)
   \<and> v_position (view_of 6500 demo_session) = 5
   \<and> v_position (view_of 200000 demo_session) = 180"
  using C2_reported_position [of demo_server "''a1''" demo_session 6500]
        C2_reported_position [of demo_server "''a1''" demo_session 200000]
  by (simp add: demo_server_def demo_session_def)

section \<open>Updating a session\<close>

subsection \<open>The guards\<close>

lemma put_session_active:
  "sessions st sid = Some s \<Longrightarrow> active s \<Longrightarrow>
     put_session sid now body st =
       (Updated sid, st\<lparr>sessions := (sessions st)(sid \<mapsto> put_update now body s),
                        history := put_history now body s (history st)\<rparr>)"
  by (simp add: put_session_def lookup_stored)

text \<open>A PUT to a stored session that has ended is answered 410 and changes nothing.\<close>

lemma put_session_inactive:
  "sessions st sid = Some s \<Longrightarrow> \<not> active s \<Longrightarrow> put_session sid now body st = (Gone, st)"
  by (simp add: put_session_def lookup_stored)

text \<open>The answer is 404 exactly when no session is stored under the id and the id is not
  a property name that \<open>sessions\<close> inherits.\<close>

lemma put_session_not_found_iff:
  "fst (put_session sid now body st) = NotFound
     \<longleftrightarrow> sessions st sid = None \<and> sid \<notin> set object_prototype_keys"
  by (auto simp: put_session_def lookup_session_def split: option.splits)

text \<open>
  C9. The claim: a PUT is answered 404 exactly when the id names no stored session. On
  the empty server, the request PUT /session/constructor finds the inherited property
  \<open>sessions["constructor"]\<close>, passes the guard \<open>!session\<close>, fails the guard on
  \<open>session.active\<close> and is answered 410.
\<close>

theorem C9_put_inherited_id:
  "sessions empty_server ''constructor'' = None
   \<and> put_session ''constructor'' 5000 empty_body empty_server = (Gone, empty_server)
   \<and> status (fst (put_session ''constructor'' 5000 empty_body empty_server)) = 410"
  by (simp add: empty_server_def put_session_def lookup_session_def object_prototype_keys_def)

subsection \<open>What each step of the handler leaves alone\<close>

lemma apply_metadata_frame [simp]:
  "songPosition (apply_metadata b s) = songPosition s"
  "lastPlayStart (apply_metadata b s) = lastPlayStart s"
  "playing (apply_metadata b s) = playing s"
  "active (apply_metadata b s) = active s"
  "currentSong (apply_metadata b s) = currentSong s"
  by (simp_all add: apply_metadata_def)

lemma apply_song_info_frame [simp]:
  "songPosition (apply_song_info b s) = songPosition s"
  "lastPlayStart (apply_song_info b s) = lastPlayStart s"
  "playing (apply_song_info b s) = playing s"
  "active (apply_song_info b s) = active s"
  "currentSong (apply_song_info b s) =
     (case req_song b of None \<Rightarrow> currentSong s | Some x \<Rightarrow> Some x)"
  by (simp_all add: apply_song_info_def)

lemma updateSongPosition_frame [simp]:
  "playing (updateSongPosition now s) = playing s"
  "active (updateSongPosition now s) = active s"
  "currentSong (updateSongPosition now s) = currentSong s"
  by (simp_all add: updateSongPosition_def split: option.splits)

lemma updateSongPosition_running:
  "playing s \<Longrightarrow> lastPlayStart s = Some t \<Longrightarrow> t \<noteq> 0 \<Longrightarrow>
     songPosition (updateSongPosition now s) = songPosition s + (now - t) div 1000
     \<and> totalPlayTime (updateSongPosition now s) = totalPlayTime s + (now - t) div 1000
     \<and> lastPlayStart (updateSongPosition now s) = Some now"
  by (simp add: updateSongPosition_def truthy_num_def elapsed_since_def)

lemma updateSongPosition_unanchored:
  "lastPlayStart s = None \<Longrightarrow> updateSongPosition now s = s"
  by (simp add: updateSongPosition_def truthy_num_def)

lemma apply_position_frame [simp]:
  "playing (apply_position now b s) = playing s"
  "active (apply_position now b s) = active s"
  "currentSong (apply_position now b s) = currentSong s"
  by (simp_all add: apply_position_def split: option.splits)

lemma apply_song_change_frame [simp]:
  "playing (apply_song_change now b s0 s) = playing s"
  "active (apply_song_change now b s0 s) = active s"
  "currentSong (apply_song_change now b s0 s) = currentSong s"
  by (simp_all add: apply_song_change_def)

lemma apply_song_change_unchanged:
  "\<not> songChanged b s0 \<Longrightarrow> apply_song_change now b s0 s = s"
  by (simp add: apply_song_change_def)

lemma apply_playing_frame [simp]:
  "active (apply_playing now b s0 s) = active s"
  "currentSong (apply_playing now b s0 s) = currentSong s"
  by (simp_all add: apply_playing_def split: option.splits)

lemma apply_playing_kept:
  "playing s \<Longrightarrow> req_playing b \<noteq> Some False \<Longrightarrow>
     songPosition (apply_playing now b s0 s) = songPosition s
     \<and> lastPlayStart (apply_playing now b s0 s) = lastPlayStart s
     \<and> playing (apply_playing now b s0 s)"
  by (cases "req_playing b") (simp_all add: apply_playing_def)

lemma apply_playing_song_changed:
  "songChanged b s0 \<Longrightarrow> apply_playing now b s0 s = s"
  by (simp add: apply_playing_def split: option.splits)

lemma put_update_active [simp]: "active (put_update now b s) = active s"
  by (simp add: put_update_def)

subsection \<open>A PUT without a position, for an unchanged song\<close>

lemma put_update_heartbeat:
  assumes "playing s" "lastPlayStart s = Some t0" "t0 \<noteq> 0"
    and "req_position b = None" "\<not> songChanged b s" "req_playing b \<noteq> Some False"
  shows "songPosition (put_update now b s) = songPosition s + (now - t0) div 1000"
    and "lastPlayStart (put_update now b s) = Some now"
    and "playing (put_update now b s)"
    and "currentSong (put_update now b s) = currentSong s"
proof -
  let ?s1 = "apply_position now b s"
  have s1: "?s1 = updateSongPosition now s"
    using assms(4,5) by (simp add: apply_position_def)
  let ?s3 = "apply_metadata b (apply_song_info b (apply_song_change now b s ?s1))"
  have s3: "songPosition ?s3 = songPosition s + (now - t0) div 1000"
    "lastPlayStart ?s3 = Some now" "playing ?s3"
    using assms(1,2,3,5) updateSongPosition_running [of s t0 now]
    by (simp_all add: s1 apply_song_change_unchanged)
  have s4: "songPosition (apply_playing now b s ?s3) = songPosition ?s3"
    "lastPlayStart (apply_playing now b s ?s3) = lastPlayStart ?s3"
    "playing (apply_playing now b s ?s3)"
    using apply_playing_kept [OF s3(3) assms(6), of now s] by simp_all
  show "songPosition (put_update now b s) = songPosition s + (now - t0) div 1000"
    and "lastPlayStart (put_update now b s) = Some now"
    and "playing (put_update now b s)"
    using s3 s4 by (simp_all add: put_update_def)
  show "currentSong (put_update now b s) = currentSong s"
    using assms(5) by (auto simp: put_update_def songChanged_def split: option.splits)
qed

lemma put_update_lastUpdated [simp]: "lastUpdated (put_update now b s) = now"
  by (simp add: put_update_def)

text \<open>A timer tick leaves alone an active session that was updated at most two minutes
  before it.\<close>

lemma tick_keeps_fresh_session:
  assumes "sessions st sid = Some s" "active s" "tick_within (lastUpdated s) e"
  shows "sessions (handle e st) sid = Some s"
  using assms by (cases e) (simp_all add: auto_pause_def cleanup_def)

lemma ticks_keep_fresh_session:
  assumes "sessions st sid = Some s" "active s" "list_all (tick_within (lastUpdated s)) ticks"
  shows "sessions (serve ticks st) sid = Some s"
  using assms
proof (induction ticks arbitrary: st)
  case Nil
  then show ?case by simp
next
  case (Cons e ticks)
  have "sessions (handle e st) sid = Some s"
    using Cons.prems by (simp add: tick_keeps_fresh_session)
  then show ?case using Cons by simp
qed

lemma serve_append: "serve (es @ fs) st = serve fs (serve es st)"
  by (induction es arbitrary: st) simp_all

text \<open>
  The path on which the handler does what C3 says. For an active, playing session whose
  \<open>lastPlayStart\<close> is set to \<open>t0\<close>, two successive PUTs at the times \<open>t1\<close> and \<open>t2\<close> (clock
  readings other than 0), each without a position, for an unchanged song and not
  pausing, with nothing between them but timer ticks within two minutes of the first,
  flush the elapsed time once each: the first adds the whole seconds from \<open>t0\<close> to \<open>t1\<close>
  and re-anchors \<open>lastPlayStart\<close> at \<open>t1\<close>, the second adds the whole seconds from \<open>t1\<close> to
  \<open>t2\<close> and re-anchors at \<open>t2\<close>. The total advance is the whole seconds from \<open>t0\<close> to
  \<open>t2\<close>, or one second less.
\<close>

lemma anchored_puts_flush_once:
  assumes "sessions st sid = Some s0" "active s0" "playing s0"
    and "lastPlayStart s0 = Some t0" "t0 \<noteq> 0" "t1 \<noteq> 0"
    and "req_position b1 = None" "\<not> songChanged b1 s0" "req_playing b1 \<noteq> Some False"
    and "req_position b2 = None" "\<not> songChanged b2 s0" "req_playing b2 \<noteq> Some False"
    and "list_all (tick_within t1) ticks"
  shows "map_option songPosition (sessions (serve [PutRequest sid t1 b1] st) sid)
           = Some (songPosition s0 + (t1 - t0) div 1000)
    \<and> map_option lastPlayStart (sessions (serve [PutRequest sid t1 b1] st) sid)
           = Some (Some t1)
    \<and> map_option songPosition
          (sessions (serve ([PutRequest sid t1 b1] @ ticks @ [PutRequest sid t2 b2]) st) sid)
           = Some (songPosition s0 + (t1 - t0) div 1000 + (t2 - t1) div 1000)
    \<and> map_option lastPlayStart
          (sessions (serve ([PutRequest sid t1 b1] @ ticks @ [PutRequest sid t2 b2]) st) sid)
           = Some (Some t2)
    \<and> (t2 - t0) div 1000 - 1 \<le> (t1 - t0) div 1000 + (t2 - t1) div 1000
    \<and> (t1 - t0) div 1000 + (t2 - t1) div 1000 \<le> (t2 - t0) div 1000"
proof -
  let ?s1 = "put_update t1 b1 s0"
  let ?st1 = "serve [PutRequest sid t1 b1] st"
  have st1: "sessions ?st1 sid = Some ?s1"
    using assms(1,2) by (simp add: put_session_active)
  have s1: "songPosition ?s1 = songPosition s0 + (t1 - t0) div 1000"
    "lastPlayStart ?s1 = Some t1" "playing ?s1" "currentSong ?s1 = currentSong s0"
    using put_update_heartbeat [OF assms(3,4,5,7,8,9), of t1] by simp_all
  have a1: "active ?s1" using assms(2) by simp
  let ?st2 = "serve ticks ?st1"
  have st2: "sessions ?st2 sid = Some ?s1"
    using ticks_keep_fresh_session [OF st1 a1] assms(13) by simp
  have ch2: "\<not> songChanged b2 ?s1"
    using assms(11) s1(4) by (simp add: songChanged_def)
  have s2: "songPosition (put_update t2 b2 ?s1) = songPosition ?s1 + (t2 - t1) div 1000"
    "lastPlayStart (put_update t2 b2 ?s1) = Some t2"
    using put_update_heartbeat [OF s1(3) s1(2) assms(6) assms(10) ch2 assms(12), of t2]
    by simp_all
  have split: "serve ([PutRequest sid t1 b1] @ ticks @ [PutRequest sid t2 b2]) st
      = serve [PutRequest sid t2 b2] ?st2"
    by (simp only: serve_append)
  have st3: "sessions (serve ([PutRequest sid t1 b1] @ ticks @ [PutRequest sid t2 b2]) st) sid
      = Some (put_update t2 b2 ?s1)"
    unfolding split using st2 a1 by (simp add: put_session_active)
  have "(t2 - t0) div 1000 - 1 \<le> (t1 - t0) div 1000 + (t2 - t1) div 1000"
    "(t1 - t0) div 1000 + (t2 - t1) div 1000 \<le> (t2 - t0) div 1000"
    by linarith+
  then show ?thesis using st1 st3 s1 s2 by simp
qed

lemma anchored_puts_flush_once_example:
  "map_option songPosition
     (sessions (serve [PutRequest ''a1'' 4000 playing_body, AutoPauseTick 60000,
                       PutRequest ''a1'' 64000 playing_body] demo_server) ''a1'')
     = Some 63"
  using anchored_puts_flush_once [of demo_server "''a1''" demo_session 1000 4000
          playing_body playing_body "[AutoPauseTick 60000]" 64000]
  by (simp add: demo_server_def demo_session_def playing_body_def empty_body_def
      songChanged_def)

text \<open>
  C3. The claim: for a playing session, two successive PUTs without a position and for
  an unchanged song, a time \<open>\<Delta>t\<close> apart, advance the stored position by about \<open>\<Delta>t\<close>.
  The session \<open>a1\<close> of \<open>stalled_server\<close> is active and playing, and its \<open>lastPlayStart\<close>
  is \<open>null\<close>: it received the song-change PUT \<open>{"song": "Karma Police"}\<close>, and the handler
  sets \<open>lastPlayStart\<close> from the \<open>playing\<close> field of the body (line 336), which that body
  does not carry, while it leaves the stored flag \<open>true\<close>. Two PUTs \<open>{"playing": true}\<close>,
  five seconds apart, with no timer tick between them, leave its stored position at 0:
  \<open>updateSongPosition\<close> flushes nothing while \<open>lastPlayStart\<close> is not set, and a PUT
  without a position does not set it while the stored flag stays \<open>true\<close>. The other
  paths of the server keep \<open>lastPlayStart\<close> set while the stored flag is \<open>true\<close>: the
  creation of a session (line 246), the resume and pause branches (lines 374 and 379) and
  the end of a session (line 403); for the sessions they produce the claim holds, which
  is lemma \<open>anchored_puts_flush_once\<close>.
\<close>

theorem C3_unanchored_session_does_not_advance:
  "sessions stalled_server ''a1'' = Some stalled_session
   \<and> active stalled_session
   \<and> playing stalled_session
   \<and> lastPlayStart stalled_session = None
   \<and> songPosition stalled_session = 0
   \<and> map_option songPosition
        (sessions (serve [PutRequest ''a1'' 10000 playing_body,
                          PutRequest ''a1'' 15000 playing_body] stalled_server) ''a1'')
       = Some 0
   \<and> map_option playing
        (sessions (serve [PutRequest ''a1'' 10000 playing_body,
                          PutRequest ''a1'' 15000 playing_body] stalled_server) ''a1'')
       = Some True
   \<and> map_option lastPlayStart
        (sessions (serve [PutRequest ''a1'' 10000 playing_body,
                          PutRequest ''a1'' 15000 playing_body] stalled_server) ''a1'')
       = Some None"
  by (simp add: stalled_session_def stalled_server_def demo_server_def demo_session_def
      karma_body_def playing_body_def empty_body_def put_session_def lookup_session_def
      put_update_def put_history_def apply_playing_def apply_metadata_def apply_song_info_def
      apply_song_change_def apply_position_def updateSongPosition_def songChanged_def
      anchor_def set_opt_def set_field_def truthy_bool_def truthy_num_def)

text \<open>
  The timer that pauses silent sessions loses elapsed time as well: it clears the
  playing flag without flushing. The session \<open>a1\<close> of \<open>demo_server\<close> is playing since the
  instant 1000. After a PUT \<open>{"playing": true}\<close> at 4000, the timer's ticks of the next
  five minutes and a second PUT \<open>{"playing": true}\<close> at 304000, the stored position is 3.
\<close>

lemma auto_pause_loses_elapsed_time:
  "map_option songPosition
     (sessions (serve [PutRequest ''a1'' 4000 playing_body, AutoPauseTick 60000,
                       AutoPauseTick 120000, AutoPauseTick 180000, AutoPauseTick 240000,
                       AutoPauseTick 300000, CleanupTick 300000,
                       PutRequest ''a1'' 304000 playing_body] demo_server) ''a1'')
     = Some 3"
  by (simp add: demo_server_def demo_session_def playing_body_def empty_body_def
      auto_pause_def cleanup_def put_session_def lookup_session_def put_update_def
      put_history_def apply_playing_def apply_metadata_def apply_song_info_def
      apply_song_change_def apply_position_def updateSongPosition_def songChanged_def
      anchor_def set_opt_def set_field_def truthy_bool_def truthy_num_def elapsed_since_def)

subsection \<open>A PUT that changes the song\<close>

lemma put_update_song_changed:
  assumes "songChanged b s"
  shows "playing (put_update now b s) = playing s"
    and "lastPlayStart (put_update now b s) = (if req_playing b = Some True then Some now else None)"
    and "req_position b = None \<Longrightarrow> songPosition (put_update now b s) = 0"
proof -
  show "playing (put_update now b s) = playing s"
    using assms by (simp add: put_update_def apply_playing_song_changed)
  show "lastPlayStart (put_update now b s) = (if req_playing b = Some True then Some now else None)"
    using assms
    by (cases "req_playing b")
       (simp_all add: put_update_def apply_playing_song_changed apply_song_change_def
          anchor_def truthy_bool_def)
  show "songPosition (put_update now b s) = 0" if "req_position b = None"
    using assms that
    by (simp add: put_update_def apply_playing_song_changed apply_song_change_def)
qed

text \<open>
  C10. On a PUT to an active session whose body changes the song, the stored playing
  flag keeps its value whatever the body's \<open>playing\<close> field is, and \<open>lastPlayStart\<close> becomes
  \<open>now\<close> when the body's \<open>playing\<close> is \<open>true\<close> and \<open>null\<close> otherwise. So a song-change PUT with
  \<open>playing = false\<close> on a playing session leaves the flag \<open>true\<close> and sets \<open>lastPlayStart\<close>
  to \<open>null\<close>.
\<close>

theorem C10_song_change_keeps_playing_flag:
  assumes "sessions st sid = Some s" "active s" "songChanged body s"
  shows "map_option playing (sessions (snd (put_session sid now body st)) sid) = Some (playing s)
    \<and> map_option lastPlayStart (sessions (snd (put_session sid now body st)) sid)
        = Some (if req_playing body = Some True then Some now else None)"
  using assms put_update_song_changed [OF assms(3), of now]
  by (simp add: put_session_active)

theorem C10_song_change_keeps_playing_flag_witness:
  "playing demo_session
   \<and> req_playing karma_paused_body = Some False
   \<and> map_option playing
        (sessions (snd (put_session ''a1'' 5000 karma_paused_body demo_server)) ''a1'') = Some True
   \<and> map_option lastPlayStart
        (sessions (snd (put_session ''a1'' 5000 karma_paused_body demo_server)) ''a1'') = Some None"
  using C10_song_change_keeps_playing_flag [of demo_server "''a1''" demo_session
          karma_paused_body 5000]
  by (simp add: demo_server_def demo_session_def karma_paused_body_def empty_body_def
      songChanged_def)

subsection \<open>The history entry of a song change\<close>

lemma find_filter_none: "find P (filter (\<lambda>x. \<not> P x) xs) = None"
  by (induction xs) auto

text \<open>
  Whenever \<open>addToHistory\<close> adds an entry, the entry is the first of the new history, no
  other entry has its key, and its play count is 1: \<open>history.find\<close> runs on the array from
  which the entries with that key have just been filtered out.
\<close>

lemma addToHistory_playCount:
  assumes "td_song td = Some song" "td_artist td = Some artist" "song \<noteq> []" "artist \<noteq> []"
  shows "\<exists>e rest. addToHistory now td hist = e # rest \<and> h_id e = trackId song artist
            \<and> playCount e = 1 \<and> trackId song artist \<notin> h_id ` set rest"
proof -
  let ?tid = "trackId song artist"
  have f: "find (\<lambda>t. h_id t = ?tid) (filter (\<lambda>t. h_id t \<noteq> ?tid) hist) = None"
    using find_filter_none [of "\<lambda>t. h_id t = ?tid" hist] by simp
  have t: "take MAX_HISTORY_ITEMS (e # xs) = e # take 49 xs" for e :: history_entry and xs
    by (simp add: MAX_HISTORY_ITEMS_def take_Cons')
  have r: "?tid \<notin> h_id ` set (take 49 (filter (\<lambda>t. h_id t \<noteq> ?tid) hist))"
    by (auto dest: in_set_takeD)
  show ?thesis
    using assms f r by (simp add: addToHistory_def Let_def t)
qed

text \<open>
  C4. The claim: the history entry appended by a song change has the play count of the
  earlier entry for the same track plus one. The history of \<open>history_server\<close> holds one
  entry, for Karma Police by Radiohead, with play count 1. After the PUT
  \<open>{"song": "Karma Police"}\<close> to the session \<open>a1\<close>, which is playing another song by the
  same artist, the stored position is 0 and the history holds one entry for that key,
  and its play count is 1, not 2.
\<close>

theorem C4_play_count_not_incremented:
  "map h_id (history history_server) = [''karma police-radiohead'']
   \<and> map playCount (history history_server) = [1]
   \<and> map_option songPosition
        (sessions (snd (put_session ''a1'' 5000 karma_body history_server)) ''a1'') = Some 0
   \<and> map h_id (history (snd (put_session ''a1'' 5000 karma_body history_server)))
       = [''karma police-radiohead'']
   \<and> map playCount (history (snd (put_session ''a1'' 5000 karma_body history_server))) = [1]"
  by (simp add: history_server_def karma_entry_def demo_session_def karma_body_def empty_body_def
      put_session_def lookup_session_def put_update_def put_history_def apply_playing_def
      apply_metadata_def apply_song_info_def apply_song_change_def apply_position_def
      songChanged_def anchor_def set_opt_def set_field_def truthy_bool_def str_or_def num_or_def
      truthy_str_def truthy_num_def opt_of_field_def song_change_track_def addToHistory_def
      trackId_def toLowerCase_def lower_char_def str_default_def num_default_def str_or_null_def
      num_or_null_def ensureHttps_def copy_user_def MAX_HISTORY_ITEMS_def)

section \<open>The placeholder classifiers\<close>

text \<open>The two classifiers, as membership in their word lists.\<close>

lemma isPlaceholder_words:
  "isPlaceholder (Some t) =
     (t = []
      \<or> trim (toLowerCase t) \<in> set [''connecting...'', ''loading...'', ''buffering...'',
            ''unknown'', ''advertisement'', ''ad'']
      \<or> length t < 2)"
  by (auto simp: isPlaceholder_def Let_def)

lemma IsPlaceholderText_words:
  "IsPlaceholderText (Some t) =
     (IsNullOrWhiteSpace (Some t)
      \<or> trim (toLowerCase t) \<in> set [''connecting...'', ''connecting'', ''loading...'',
            ''loading'', ''buffering...'', ''buffering'', ''unknown'', ''unknown artist'',
            ''unknown title'', ''advertisement'', ''ad'']
      \<or> StartsWith (trim (toLowerCase t)) ''connecting to''
      \<or> StartsWith (trim (toLowerCase t)) ''loading''
      \<or> length t < 2)"
  by (auto simp: IsPlaceholderText_def Let_def)

text \<open>
  C5. The claim: the classifier returns true for the trimmed, case-insensitive matches
  of eleven words, among them \<open>buffering\<close>, and for the two prefixes; in particular
  \<open>isPlaceholder("Buffering")\<close> is true. The classifier of the Windows client does so. The
  classifier \<open>isPlaceholder\<close> of the Electron client knows six of the words and no prefix:
  it returns false on \<open>Buffering\<close>, as it does on \<open>Loading\<close> and on \<open>Connecting to Spotify\<close>.
\<close>

theorem C5_isPlaceholder_misses_buffering:
  "isPlaceholder (Some ''Buffering'') = False
   \<and> IsPlaceholderText (Some ''Buffering'') = True
   \<and> isPlaceholder (Some ''Loading'') = False
   \<and> IsPlaceholderText (Some ''Loading'') = True
   \<and> isPlaceholder (Some ''Connecting to Spotify'') = False
   \<and> IsPlaceholderText (Some ''Connecting to Spotify'') = True
   \<and> isPlaceholder (Some ''Bohemian Rhapsody'') = False
   \<and> IsPlaceholderText (Some ''Bohemian Rhapsody'') = False"
  by (simp add: isPlaceholder_def IsPlaceholderText_def IsNullOrWhiteSpace_def trim_def
      toLowerCase_def lower_char_def is_space_def StartsWith_def)

section \<open>Track identity\<close>

text \<open>
  C8, as stated: snapshots whose titles and artists are equal after normalisation have
  equal identity keys, and no song change fires between them. Neither client normalises:
  the titles \<open>Hello\<close> and \<open>hello \<close> and the artists \<open>Queen\<close> and \<open>QUEEN\<close> are equal after
  normalisation, and the second snapshot is a song change after the first. The server's
  history keys of the two differ as well, by the trailing space.
\<close>

theorem C8_case_and_space_change_the_song:
  "spec_normalize ''Hello'' = spec_normalize ''hello ''
   \<and> spec_normalize ''Queen'' = spec_normalize ''QUEEN''
   \<and> song_changed (songId ''Hello'' ''Queen'') ''hello '' ''QUEEN''
   \<and> trackId ''Hello'' ''Queen'' \<noteq> trackId ''hello '' ''QUEEN''"
  by (simp add: spec_normalize_def trim_def toLowerCase_def lower_char_def is_space_def
      song_changed_def songId_def trackId_def)

text \<open>The song id determines the title and the artist when the titles hold no bar.\<close>

lemma songId_inj:
  assumes "CHR ''|'' \<notin> set t1" "CHR ''|'' \<notin> set t2" "songId t1 a1 = songId t2 a2"
  shows "t1 = t2 \<and> a1 = a2"
  using assms
proof (induction t1 arbitrary: t2)
  case Nil
  then show ?case by (cases t2) (auto simp: songId_def)
next
  case (Cons c t1)
  then show ?case by (cases t2) (auto simp: songId_def)
qed

text \<open>
  C8, amended. On the clients, the song id is the raw text of title and artist: snapshots
  with the same title and the same artist have the same song id and no song change fires
  between them, and between snapshots whose titles hold no bar a song change fires
  exactly when the titles or the artists differ in any character. On the server, tracks
  whose songs and artists are equal after lowercasing have the same history key.
\<close>

theorem C8_identity_keys:
  "(title1 = title2 \<and> artist1 = artist2
      \<longrightarrow> songId title1 artist1 = songId title2 artist2
          \<and> \<not> song_changed (songId title1 artist1) title2 artist2)
   \<and> (CHR ''|'' \<notin> set title1 \<and> CHR ''|'' \<notin> set title2
      \<longrightarrow> song_changed (songId title1 artist1) title2 artist2
            = (title1 \<noteq> title2 \<or> artist1 \<noteq> artist2))
   \<and> (toLowerCase song1 = toLowerCase song2 \<and> toLowerCase by1 = toLowerCase by2
      \<longrightarrow> trackId song1 by1 = trackId song2 by2)"
  using songId_inj [of title2 title1 artist2 artist1]
  by (auto simp: song_changed_def trackId_def)

theorem C8_identity_keys_witness:
  "\<not> song_changed (songId ''Hello'' ''Queen'') ''Hello'' ''Queen''
   \<and> trackId ''Hello'' ''Queen'' = trackId ''hello'' ''QUEEN''
   \<and> trackId ''hello'' ''QUEEN'' = ''hello-queen''"
  using C8_identity_keys [where ?title1.0 = "''Hello''" and ?title2.0 = "''Hello''"
          and ?artist1.0 = "''Queen''" and ?artist2.0 = "''Queen''"
          and ?song1.0 = "''Hello''" and ?song2.0 = "''hello''"
          and ?by1.0 = "''Queen''" and ?by2.0 = "''QUEEN''"]
  by (simp add: toLowerCase_def lower_char_def trackId_def)

section \<open>Duration resolution\<close>

lemma retry_duration_3: "attempt = 3 \<Longrightarrow> retry_duration reads attempt slept = (None, slept)"
  by (subst retry_duration.simps) simp

lemma retry_duration_2:
  "attempt = 2 \<Longrightarrow> retry_duration reads attempt slept =
     (if reads 3 > 0 then (Some (reads 3), slept @ [300]) else (None, slept @ [300]))"
  by (subst retry_duration.simps) (simp add: retry_duration_3 Let_def eval_nat_numeral)

lemma retry_duration_1:
  "attempt = 1 \<Longrightarrow> retry_duration reads attempt slept =
     (if reads 2 > 0 then (Some (reads 2), slept @ [200])
      else if reads 3 > 0 then (Some (reads 3), slept @ [200, 300])
      else (None, slept @ [200, 300]))"
  by (subst retry_duration.simps) (simp add: retry_duration_2 Let_def eval_nat_numeral)

lemma retry_duration_unfold:
  "retry_duration reads 0 [] =
     (if reads 1 > 0 then (Some (reads 1), [100])
      else if reads 2 > 0 then (Some (reads 2), [100, 200])
      else if reads 3 > 0 then (Some (reads 3), [100, 200, 300])
      else (None, [100, 200, 300]))"
  by (subst retry_duration.simps) (simp add: retry_duration_1 Let_def eval_nat_numeral)

lemma GetValidDuration_cases:
  "GetValidDuration reads known =
     (if reads 0 > 0 then (reads 0, reads 0, [])
      else if reads 1 > 0 then (reads 1, reads 1, [100])
      else if reads 2 > 0 then (reads 2, reads 2, [100, 200])
      else if reads 3 > 0 then (reads 3, reads 3, [100, 200, 300])
      else if known > 0 then (known, known, [100, 200, 300])
      else (0, known, [100, 200, 300]))"
  by (simp add: GetValidDuration_def retry_duration_unfold Let_def)

text \<open>
  With durations and cache that are not negative, the Windows client resolves the
  duration as follows: a nonzero first read is used and cached, with no delay; a zero
  read is retried after 100, 200 and 300 milliseconds, and the first nonzero retry is
  used and cached; when the four reads are zero, the cached duration is used if it is
  nonzero, and 0 is returned otherwise.
\<close>

lemma GetValidDuration_resolution:
  assumes "0 \<le> reads 0" "0 \<le> reads 1" "0 \<le> reads 2" "0 \<le> reads 3" "0 \<le> known"
  shows "GetValidDuration reads known =
     (if reads 0 \<noteq> 0 then (reads 0, reads 0, [])
      else if reads 1 \<noteq> 0 then (reads 1, reads 1, [100])
      else if reads 2 \<noteq> 0 then (reads 2, reads 2, [100, 200])
      else if reads 3 \<noteq> 0 then (reads 3, reads 3, [100, 200, 300])
      else if known \<noteq> 0 then (known, known, [100, 200, 300])
      else (0, 0, [100, 200, 300]))"
  using assms by (simp add: GetValidDuration_cases)

lemma GetValidDuration_examples:
  "GetValidDuration (reads_of [0, 0, 0, 180]) 0 = (180, 180, [100, 200, 300])
   \<and> GetValidDuration (reads_of [0, 0, 0, 0]) 200 = (200, 200, [100, 200, 300])
   \<and> GetValidDuration (reads_of [0, 0, 0, 0]) 0 = (0, 0, [100, 200, 300])
   \<and> GetValidDuration (reads_of [240]) 200 = (240, 240, [])"
  using GetValidDuration_resolution [of "reads_of [0, 0, 0, 180]" 0]
        GetValidDuration_resolution [of "reads_of [0, 0, 0, 0]" 200]
        GetValidDuration_resolution [of "reads_of [0, 0, 0, 0]" 0]
        GetValidDuration_resolution [of "reads_of [240]" 200]
  by (simp add: reads_of_def)

text \<open>The Electron client sends the duration it read, whatever it is.\<close>

lemma update_body_duration: "req_duration (update_body m playing_now st) = Some (m_duration m)"
  by (simp add: update_body_def num_default_def)

text \<open>
  C6. The claim: on each poll the client retries a zero duration three times and then
  falls back to the last nonzero duration. The Windows client does so. The Electron
  client reads the duration once per poll and keeps no earlier duration: when the track
  for which it has set an activity of 180 seconds is read with duration 0, its heartbeat
  carries \<open>duration: 0\<close>, and the backend overwrites the session's duration of 180 with 0.
\<close>

theorem C6_electron_sends_zero_duration:
  "snd (poll_once same_track_poll electron_playing)
     = [Update (update_body zero_duration_media True electron_playing)]
   \<and> req_duration (update_body zero_duration_media True electron_playing) = Some 0
   \<and> map_option songDuration (sessions demo_server ''a1'') = Some 180
   \<and> map_option songDuration
        (sessions (snd (put_session ''a1'' 1003500
           (update_body zero_duration_media True electron_playing) demo_server)) ''a1'') = Some 0
   \<and> GetValidDuration (reads_of [0, 0, 0, 180]) 0 = (180, 180, [100, 200, 300])
   \<and> GetValidDuration (reads_of [0, 0, 0, 0]) 180 = (180, 180, [100, 200, 300])"
proof -
  have 1: "snd (poll_once same_track_poll electron_playing)
     = [Update (update_body zero_duration_media True electron_playing)]"
    by (simp add: poll_once_def same_track_poll_def zero_duration_media_def electron_playing_def
        is_track_def isPlaceholder_def trim_def toLowerCase_def lower_char_def is_space_def
        on_song_changed_def on_play_state_changed_def heartbeat_def songId_def truthy_str_def
        Let_def)
  have 2: "req_duration (update_body zero_duration_media True electron_playing) = Some 0"
    by (simp add: update_body_duration zero_duration_media_def)
  have 3: "map_option songDuration
        (sessions (snd (put_session ''a1'' 1003500
           (update_body zero_duration_media True electron_playing) demo_server)) ''a1'') = Some 0"
    by (simp add: put_session_def lookup_session_def demo_server_def demo_session_def
        put_update_def apply_playing_def apply_metadata_def apply_song_info_def
        apply_song_change_def apply_position_def songChanged_def update_body_def set_opt_def
        num_default_def zero_duration_media_def)
  have 4: "GetValidDuration (reads_of [0, 0, 0, 180]) 0 = (180, 180, [100, 200, 300])"
    "GetValidDuration (reads_of [0, 0, 0, 0]) 180 = (180, 180, [100, 200, 300])"
    by (simp_all add: GetValidDuration_cases reads_of_def)
  show ?thesis
    using 1 2 3 4 by (simp add: demo_server_def demo_session_def)
qed

section \<open>The presence timer\<close>

subsection \<open>The Windows client\<close>

lemma on_app_change_same:
  "activeAppId ob = currentAppId st \<Longrightarrow> on_app_change ob st = (st, False)"
  by (simp add: on_app_change_def)

lemma on_play_state_change_same:
  "currentSessionId st = None \<or> isPlaying ob = lastPlayingState st \<Longrightarrow>
     on_play_state_change ob st = st"
  by (auto simp: on_play_state_change_def)

lemma compute_timestamps_ordered: "timer_ordered (compute_timestamps ob a d st)"
  by (simp add: compute_timestamps_def timer_ordered_def Let_def)

lemma must_recompute_ordered:
  "timer_ordered st \<Longrightarrow> presenceStartTime st = Some s \<Longrightarrow> presenceEndTime st = Some e \<Longrightarrow>
     \<not> must_recompute st d"
  by (simp add: must_recompute_def timer_ordered_def)

lemma timer_ordered_cleared [simp]:
  "timer_ordered (st\<lparr>presenceStartTime := None, presenceEndTime := None\<rparr>)"
  by (simp add: timer_ordered_def)

lemma timer_ordered_frame [simp]:
  "timer_ordered (st\<lparr>lastKnownDuration := k\<rparr>) = timer_ordered st"
  "timer_ordered (st\<lparr>lastSongId := i\<rparr>) = timer_ordered st"
  "timer_ordered (st\<lparr>currentAppId := a\<rparr>) = timer_ordered st"
  "timer_ordered (st\<lparr>currentSessionId := c\<rparr>) = timer_ordered st"
  "timer_ordered (st\<lparr>lastPlayingState := p\<rparr>) = timer_ordered st"
  by (simp_all add: timer_ordered_def)

lemma on_app_change_ordered:
  "timer_ordered st \<Longrightarrow> timer_ordered (fst (on_app_change ob st))"
  by (cases "GetValidDuration (reads_on_start ob) (lastKnownDuration st)")
     (simp add: on_app_change_def Let_def timer_ordered_def split: option.splits)

lemma on_play_state_change_ordered:
  "timer_ordered st \<Longrightarrow> timer_ordered (on_play_state_change ob st)"
  by (cases "GetValidDuration (reads_on_toggle ob) (lastKnownDuration st)")
     (simp add: on_play_state_change_def)

lemma on_heartbeat_ordered:
  "timer_ordered st \<Longrightarrow> timer_ordered (fst (on_heartbeat ob st))"
  by (cases "GetValidDuration (reads_on_beat ob) (lastKnownDuration st)")
     (auto simp: on_heartbeat_def Let_def compute_timestamps_ordered split: option.splits)

lemma iteration_ordered:
  "timer_ordered st \<Longrightarrow> timer_ordered (fst (iteration ob st))"
proof -
  assume o: "timer_ordered st"
  obtain st1 skip where a: "on_app_change ob st = (st1, skip)" by (cases "on_app_change ob st")
  have o1: "timer_ordered st1" using on_app_change_ordered [OF o, of ob] a by simp
  show ?thesis
    using a o1 on_heartbeat_ordered [OF on_play_state_change_ordered [OF o1], of ob ob]
    by (cases skip) (simp_all add: iteration_def)
qed

lemma run_ordered: "timer_ordered st \<Longrightarrow> timer_ordered (run obs st)"
  by (induction obs arbitrary: st) (simp_all add: iteration_ordered)

lemma reachable_ordered: "timer_ordered (run obs initial_loop_state)"
  by (rule run_ordered) (simp add: timer_ordered_def initial_loop_state_def)

lemma on_heartbeat_steady:
  assumes "active_source ob = Some a"
    and "songId (src_title a) (src_artist a) = lastSongId st"
    and "presenceStartTime st = Some s" "presenceEndTime st = Some e" "s < e"
  shows "presence_pair (fst (on_heartbeat ob st)) = (Some s, Some e)"
proof -
  obtain d k sl where g: "GetValidDuration (reads_on_beat ob) (lastKnownDuration st) = (d, k, sl)"
    by (cases "GetValidDuration (reads_on_beat ob) (lastKnownDuration st)")
  have "\<not> must_recompute (st\<lparr>lastKnownDuration := k\<rparr>) d"
    using assms(3,4,5) by (simp add: must_recompute_def)
  then show ?thesis
    using assms g by (simp add: on_heartbeat_def presence_pair_def Let_def)
qed

lemma iteration_steady:
  assumes "active_source ob = Some a"
    and "currentAppId st = Some (src_app a)"
    and "\<not> song_changed (lastSongId st) (src_title a) (src_artist a)"
    and "currentSessionId st = None \<or> src_playing a = lastPlayingState st"
    and "presenceStartTime st = Some s" "presenceEndTime st = Some e" "s < e"
  shows "presence_pair (fst (iteration ob st)) = (Some s, Some e)"
proof -
  have 1: "on_app_change ob st = (st, False)"
    using assms(1,2) by (simp add: on_app_change_same activeAppId_def)
  have 2: "on_play_state_change ob st = st"
    using assms(1,4) by (auto simp: on_play_state_change_same isPlaying_def)
  show ?thesis
    using on_heartbeat_steady [OF assms(1) _ assms(5,6,7)] assms(3)
    by (simp add: iteration_def 1 2 song_changed_def)
qed


lemma on_heartbeat_paused:
  assumes "active_source ob = Some a" "\<not> src_playing a"
    and "songId (src_title a) (src_artist a) = lastSongId st"
  shows "presence_pair (fst (on_heartbeat ob st)) = presence_pair st"
proof -
  obtain d k sl where g: "GetValidDuration (reads_on_beat ob) (lastKnownDuration st) = (d, k, sl)"
    by (cases "GetValidDuration (reads_on_beat ob) (lastKnownDuration st)")
  show ?thesis
    using assms g by (simp add: on_heartbeat_def presence_pair_def Let_def isPlaying_def)
qed

lemma on_heartbeat_idle:
  "active_source ob = None \<Longrightarrow> on_heartbeat ob st = (st, ClearPresence)"
  by (simp add: on_heartbeat_def)

lemma on_play_state_change_idle:
  "active_source ob = None \<Longrightarrow> on_play_state_change ob st = st"
  by (simp add: on_play_state_change_def)

lemma on_play_state_change_cases:
  "on_play_state_change ob st = st
   \<or> (presence_pair (on_play_state_change ob st) = (None, None)
       \<and> lastSongId (on_play_state_change ob st) = lastSongId st)"
  by (cases "GetValidDuration (reads_on_toggle ob) (lastKnownDuration st)")
     (simp add: on_play_state_change_def presence_pair_def)

lemma recomputed_only_when:
  assumes ord: "timer_ordered st"
    and new: "presence_pair (fst (iteration ob st)) = (Some s', Some e')"
    and alt: "presence_pair (fst (iteration ob st)) \<noteq> presence_pair st"
  shows "presenceStartTime st = None \<or> presenceEndTime st = None
     \<or> activeAppId ob \<noteq> currentAppId st
     \<or> (case active_source ob of
           None \<Rightarrow> False
         | Some a \<Rightarrow> song_changed (lastSongId st) (src_title a) (src_artist a))
     \<or> (isPlaying ob \<and> \<not> lastPlayingState st \<and> currentSessionId st \<noteq> None)"
proof (rule ccontr)
  assume neg: "\<not> ?thesis"
  then obtain s e where pair: "presenceStartTime st = Some s" "presenceEndTime st = Some e"
    by auto
  have lt: "s < e" using ord pair by (simp add: timer_ordered_def)
  have app: "on_app_change ob st = (st, False)"
    using neg by (simp add: on_app_change_same)
  show False
  proof (cases "active_source ob")
    case None
    then show False
      using alt app by (simp add: iteration_def on_play_state_change_idle on_heartbeat_idle)
  next
    case (Some a)
    have song: "songId (src_title a) (src_artist a) = lastSongId st"
      using neg Some by (simp add: song_changed_def)
    have cur: "currentAppId st = Some (src_app a)"
      using neg Some by (simp add: activeAppId_def)
    show False
    proof (cases "currentSessionId st = None \<or> src_playing a = lastPlayingState st")
      case True
      have "presence_pair (fst (iteration ob st)) = (Some s, Some e)"
        using iteration_steady [OF Some cur _ True pair lt] song by (simp add: song_changed_def)
      then show False using alt pair by (simp add: presence_pair_def)
    next
      case False
      then have paused: "\<not> src_playing a"
        using neg Some by (auto simp: isPlaying_def)
      let ?st2 = "on_play_state_change ob st"
      have it: "fst (iteration ob st) = fst (on_heartbeat ob ?st2)"
        using app by (simp add: iteration_def)
      from on_play_state_change_cases [of ob st] show False
      proof
        assume "?st2 = st"
        then show False
          using on_heartbeat_paused [OF Some paused song] alt it by simp
      next
        assume c: "presence_pair ?st2 = (None, None) \<and> lastSongId ?st2 = lastSongId st"
        then have "presence_pair (fst (on_heartbeat ob ?st2)) = (None, None)"
          using on_heartbeat_paused [OF Some paused, of ?st2] song by simp
        then show False using new it by simp
      qed
    qed
  qed
qed

text \<open>A session is held only while an application is current, and while a session is
  held \<open>lastPlayingState\<close> is the play state of the last observation.\<close>

lemma on_heartbeat_frame [simp]:
  "currentSessionId (fst (on_heartbeat ob st)) = currentSessionId st"
  "currentAppId (fst (on_heartbeat ob st)) = currentAppId st"
  "lastPlayingState (fst (on_heartbeat ob st)) = lastPlayingState st"
  by (cases "GetValidDuration (reads_on_beat ob) (lastKnownDuration st)";
      simp add: on_heartbeat_def Let_def compute_timestamps_def split: option.splits)+

lemma on_play_state_change_frame [simp]:
  "currentSessionId (on_play_state_change ob st) = currentSessionId st"
  "currentAppId (on_play_state_change ob st) = currentAppId st"
  by (cases "GetValidDuration (reads_on_toggle ob) (lastKnownDuration st)";
      simp add: on_play_state_change_def)+

lemma on_play_state_change_fresh:
  "active_source ob \<noteq> None \<Longrightarrow> currentSessionId st \<noteq> None \<Longrightarrow>
     lastPlayingState (on_play_state_change ob st) = isPlaying ob"
  by (cases "GetValidDuration (reads_on_toggle ob) (lastKnownDuration st)")
     (auto simp: on_play_state_change_def)

lemma on_app_change_has_app:
  "session_has_app st \<Longrightarrow> session_has_app (fst (on_app_change ob st))"
  by (cases "GetValidDuration (reads_on_start ob) (lastKnownDuration st)")
     (auto simp: on_app_change_def session_has_app_def activeAppId_def Let_def
        split: option.splits)

lemma on_app_change_app:
  "currentAppId (fst (on_app_change ob st)) = activeAppId ob"
  by (cases "GetValidDuration (reads_on_start ob) (lastKnownDuration st)")
     (auto simp: on_app_change_def Let_def split: option.splits)

lemma on_app_change_skip:
  "snd (on_app_change ob st) \<Longrightarrow>
     lastPlayingState (fst (on_app_change ob st)) = isPlaying ob"
  by (cases "GetValidDuration (reads_on_start ob) (lastKnownDuration st)")
     (auto simp: on_app_change_def Let_def split: option.splits if_splits)

lemma iteration_has_app:
  "session_has_app st \<Longrightarrow> session_has_app (fst (iteration ob st))"
proof -
  assume h: "session_has_app st"
  obtain st1 skip where a: "on_app_change ob st = (st1, skip)" by (cases "on_app_change ob st")
  have h1: "session_has_app st1" using on_app_change_has_app [OF h, of ob] a by simp
  then show ?thesis
    using a by (cases skip) (simp_all add: iteration_def session_has_app_def)
qed

lemma iteration_fresh:
  assumes "session_has_app st" "currentSessionId (fst (iteration ob st)) \<noteq> None"
  shows "lastPlayingState (fst (iteration ob st)) = isPlaying ob"
proof -
  obtain st1 skip where a: "on_app_change ob st = (st1, skip)" by (cases "on_app_change ob st")
  have h1: "session_has_app st1" using on_app_change_has_app [OF assms(1), of ob] a by simp
  have app1: "currentAppId st1 = activeAppId ob" using on_app_change_app [of ob st] a by simp
  show ?thesis
  proof (cases skip)
    case True
    then show ?thesis
      using a on_app_change_skip [of ob st] by (simp add: iteration_def)
  next
    case False
    then have it: "fst (iteration ob st) = fst (on_heartbeat ob (on_play_state_change ob st1))"
      using a by (simp add: iteration_def)
    then have held: "currentSessionId st1 \<noteq> None" using assms(2) by simp
    then have "active_source ob \<noteq> None"
      using h1 app1 by (auto simp: session_has_app_def activeAppId_def)
    then show ?thesis
      using it held by (simp add: on_play_state_change_fresh)
  qed
qed

lemma run_snoc: "run (obs @ [ob]) st = fst (iteration ob (run obs st))"
  by (induction obs arbitrary: st) simp_all

lemma run_has_app: "session_has_app st \<Longrightarrow> session_has_app (run obs st)"
  by (induction obs arbitrary: st) (simp_all add: iteration_has_app)

lemma reachable_fresh:
  assumes "obs \<noteq> []" "currentSessionId (run obs initial_loop_state) \<noteq> None"
  shows "lastPlayingState (run obs initial_loop_state) = isPlaying (last obs)"
proof -
  have init: "session_has_app initial_loop_state"
    by (simp add: session_has_app_def initial_loop_state_def)
  have split: "run obs initial_loop_state
      = fst (iteration (last obs) (run (butlast obs) initial_loop_state))"
    using assms(1) run_snoc [of "butlast obs" "last obs" initial_loop_state] by simp
  show ?thesis
    using assms(2) iteration_fresh [OF run_has_app [OF init, of "butlast obs"], of "last obs"]
    by (simp add: split)
qed

subsection \<open>The Electron client\<close>

lemma setDiscordPresence_frame [simp]:
  "e_lastSongId (setDiscordPresence p m st) = e_lastSongId st"
  "e_lastPlayingState (setDiscordPresence p m st) = e_lastPlayingState st"
  "e_currentSessionId (setDiscordPresence p m st) = e_currentSessionId st"
  by (simp_all add: setDiscordPresence_def Let_def)

lemma clearDiscordPresence_activity:
  "activity (clearDiscordPresence p st) = None \<or> activity (clearDiscordPresence p st) = activity st"
  by (simp add: clearDiscordPresence_def)

lemma on_song_changed_same:
  "songId (m_title m) (m_artist m) = e_lastSongId st \<Longrightarrow> on_song_changed p m st = (st, [], False)"
  by (simp add: on_song_changed_def)

lemma on_play_state_changed_same:
  "(m_state m = ''playing'') = e_lastPlayingState st \<Longrightarrow> on_play_state_changed p m st = (st, [])"
  by (simp add: on_play_state_changed_def Let_def)

lemma on_play_state_changed_paused:
  "m_state m \<noteq> ''playing'' \<Longrightarrow>
     activity (fst (on_play_state_changed p m st)) = None
     \<or> activity (fst (on_play_state_changed p m st)) = activity st"
  by (simp add: on_play_state_changed_def Let_def clearDiscordPresence_def)

lemma on_no_media_activity:
  "activity (fst (on_no_media p st)) = None \<or> activity (fst (on_no_media p st)) = activity st"
  by (simp add: on_no_media_def clearDiscordPresence_def)

lemma poll_once_steady:
  assumes "detected p = Some m" "is_track (Some m)"
    and "\<not> song_changed (e_lastSongId st) (m_title m) (m_artist m)"
    and "(m_state m = ''playing'') = e_lastPlayingState st"
  shows "activity (fst (poll_once p st)) = activity st"
  using assms
  by (simp add: poll_once_def song_changed_def on_song_changed_same on_play_state_changed_same)

lemma poll_once_only_when:
  assumes new: "activity (fst (poll_once p st)) = Some ts"
    and alt: "activity (fst (poll_once p st)) \<noteq> activity st"
  shows "case detected p of
           None \<Rightarrow> False
         | Some m \<Rightarrow> song_changed (e_lastSongId st) (m_title m) (m_artist m)
                      \<or> (m_state m = ''playing'' \<and> \<not> e_lastPlayingState st)"
proof (cases "detected p")
  case None
  then show ?thesis
    using new alt on_no_media_activity [of p st] by (auto simp: poll_once_def)
next
  case (Some m)
  show ?thesis
  proof (cases "is_track (Some m)")
    case False
    then show ?thesis
      using Some new alt on_no_media_activity [of p st] by (auto simp: poll_once_def)
  next
    case True
    show ?thesis
    proof (rule ccontr)
      assume neg: "\<not> ?thesis"
      then have same: "songId (m_title m) (m_artist m) = e_lastSongId st"
        and play: "m_state m \<noteq> ''playing'' \<or> e_lastPlayingState st"
        using Some by (auto simp: song_changed_def)
      have it: "fst (poll_once p st) = fst (on_play_state_changed p m st)"
        using Some True same
        by (simp add: poll_once_def on_song_changed_same split: prod.splits)
      show False
      proof (cases "m_state m = ''playing''")
        case True
        then have "on_play_state_changed p m st = (st, [])"
          using play by (simp add: on_play_state_changed_same)
        then show False using alt it by simp
      next
        case False
        then show False
          using on_play_state_changed_paused [of m p st] new alt it by auto
      qed
    qed
  qed
qed

subsection \<open>Both clients\<close>

text \<open>
  C7. Windows client: let \<open>st\<close> be a state that the loop reaches from its initial state
  by the observations \<open>obs\<close>. If the same application reports the same song and a
  timestamp pair is stored, the iteration leaves the pair as it is, provided the play
  state is the one in \<open>lastPlayingState\<close>; when no session is held, the iteration leaves
  the pair as it is whatever the play state. While a session is held, \<open>lastPlayingState\<close>
  is the play state of the last observation. And if the iteration ends with a stored
  pair that differs from the one before, then no pair was stored before, or the
  application changed (the loop starts a new listening context, for which no timer
  exists yet), or the song changed, or a session is held and the play state went from
  paused to playing. The fourth trigger of the source, an end that is not after the
  start while a duration is available, never fires in a reachable state: every computed
  end is after its start.

  Electron client, in any state \<open>est\<close>: a poll that finds the same song in the same play
  state leaves the timestamps of the activity as they are; and if a poll ends with
  timestamps that differ from the ones before, then the song changed or the play state
  went from paused to playing.
\<close>

theorem C7_presence_timer:
  assumes "st = run obs initial_loop_state"
  shows "(\<forall>a s e. active_source ob = Some a \<and> currentAppId st = Some (src_app a)
              \<and> \<not> song_changed (lastSongId st) (src_title a) (src_artist a)
              \<and> (currentSessionId st = None \<or> src_playing a = lastPlayingState st)
              \<and> presence_pair st = (Some s, Some e)
            \<longrightarrow> presence_pair (fst (iteration ob st)) = (Some s, Some e))
     \<and> (obs \<noteq> [] \<and> currentSessionId st \<noteq> None
            \<longrightarrow> lastPlayingState st = isPlaying (last obs))
     \<and> (\<forall>s' e'. presence_pair (fst (iteration ob st)) = (Some s', Some e')
              \<and> presence_pair (fst (iteration ob st)) \<noteq> presence_pair st
            \<longrightarrow> presenceStartTime st = None \<or> presenceEndTime st = None
                \<or> activeAppId ob \<noteq> currentAppId st
                \<or> (case active_source ob of
                      None \<Rightarrow> False
                    | Some a \<Rightarrow> song_changed (lastSongId st) (src_title a) (src_artist a))
                \<or> (isPlaying ob \<and> \<not> lastPlayingState st \<and> currentSessionId st \<noteq> None))
     \<and> (\<forall>m. detected p = Some m \<and> is_track (Some m)
              \<and> \<not> song_changed (e_lastSongId est) (m_title m) (m_artist m)
              \<and> (m_state m = ''playing'') = e_lastPlayingState est
            \<longrightarrow> activity (fst (poll_once p est)) = activity est)
     \<and> (\<forall>ts. activity (fst (poll_once p est)) = Some ts
              \<and> activity (fst (poll_once p est)) \<noteq> activity est
            \<longrightarrow> (case detected p of
                   None \<Rightarrow> False
                 | Some m \<Rightarrow> song_changed (e_lastSongId est) (m_title m) (m_artist m)
                             \<or> (m_state m = ''playing'' \<and> \<not> e_lastPlayingState est)))"
proof -
  have ord: "timer_ordered st" using assms by (simp add: reachable_ordered)
  have 1: "presence_pair (fst (iteration ob st)) = (Some s, Some e)"
    if "active_source ob = Some a" "currentAppId st = Some (src_app a)"
       "\<not> song_changed (lastSongId st) (src_title a) (src_artist a)"
       "currentSessionId st = None \<or> src_playing a = lastPlayingState st"
       "presence_pair st = (Some s, Some e)" for a s e
  proof -
    have p: "presenceStartTime st = Some s" "presenceEndTime st = Some e"
      using that(5) by (simp_all add: presence_pair_def)
    have "s < e" using ord p by (simp add: timer_ordered_def)
    then show ?thesis using iteration_steady [OF that(1,2,3,4) p] by simp
  qed
  have steady: "\<forall>a s e. active_source ob = Some a \<and> currentAppId st = Some (src_app a)
              \<and> \<not> song_changed (lastSongId st) (src_title a) (src_artist a)
              \<and> (currentSessionId st = None \<or> src_playing a = lastPlayingState st)
              \<and> presence_pair st = (Some s, Some e)
            \<longrightarrow> presence_pair (fst (iteration ob st)) = (Some s, Some e)"
    using 1 by blast
  have fresh: "obs \<noteq> [] \<and> currentSessionId st \<noteq> None
            \<longrightarrow> lastPlayingState st = isPlaying (last obs)"
    using assms reachable_fresh [of obs] by simp
  have only: "\<forall>s' e'. presence_pair (fst (iteration ob st)) = (Some s', Some e')
              \<and> presence_pair (fst (iteration ob st)) \<noteq> presence_pair st
            \<longrightarrow> presenceStartTime st = None \<or> presenceEndTime st = None
                \<or> activeAppId ob \<noteq> currentAppId st
                \<or> (case active_source ob of
                      None \<Rightarrow> False
                    | Some a \<Rightarrow> song_changed (lastSongId st) (src_title a) (src_artist a))
                \<or> (isPlaying ob \<and> \<not> lastPlayingState st \<and> currentSessionId st \<noteq> None)"
    using recomputed_only_when [OF ord] by blast
  have electron_steady: "\<forall>m. detected p = Some m \<and> is_track (Some m)
              \<and> \<not> song_changed (e_lastSongId est) (m_title m) (m_artist m)
              \<and> (m_state m = ''playing'') = e_lastPlayingState est
            \<longrightarrow> activity (fst (poll_once p est)) = activity est"
    using poll_once_steady [of p _ est] by blast
  have electron_only: "\<forall>ts. activity (fst (poll_once p est)) = Some ts
              \<and> activity (fst (poll_once p est)) \<noteq> activity est
            \<longrightarrow> (case detected p of
                   None \<Rightarrow> False
                 | Some m \<Rightarrow> song_changed (e_lastSongId est) (m_title m) (m_artist m)
                             \<or> (m_state m = ''playing'' \<and> \<not> e_lastPlayingState est))"
    using poll_once_only_when [of p est] by blast
  show ?thesis
    using steady fresh only electron_steady electron_only by blast
qed

lemma first_run:
  "run [first_observation] initial_loop_state =
     \<lparr>lastSongId = ''Paranoid Android|Radiohead'', currentAppId = Some ''Spotify.exe'',
      currentSessionId = Some ''a1'', lastPlayingState = True,
      presenceStartTime = Some 970000, presenceEndTime = Some 1150000,
      lastKnownDuration = 180\<rparr>"
  by (simp add: first_observation_def initial_loop_state_def iteration_def on_app_change_def
      on_play_state_change_def on_heartbeat_def must_recompute_def compute_timestamps_def
      activeAppId_def isPlaying_def songId_def GetValidDuration_cases reads_of_def
      IsPlaceholderText_def IsNullOrWhiteSpace_def trim_def toLowerCase_def lower_char_def
      is_space_def StartsWith_def Let_def)

lemma offline_run:
  "run [offline_paused, offline_playing] initial_loop_state =
     \<lparr>lastSongId = ''Paranoid Android|Radiohead'', currentAppId = Some ''Spotify.exe'',
      currentSessionId = None, lastPlayingState = False,
      presenceStartTime = Some 980000, presenceEndTime = Some 1160000,
      lastKnownDuration = 180\<rparr>"
  by (simp add: offline_paused_def offline_playing_def initial_loop_state_def iteration_def
      on_app_change_def on_play_state_change_def on_heartbeat_def must_recompute_def
      compute_timestamps_def activeAppId_def isPlaying_def songId_def GetValidDuration_cases
      reads_of_def IsPlaceholderText_def IsNullOrWhiteSpace_def trim_def toLowerCase_def
      lower_char_def is_space_def StartsWith_def Let_def)

theorem C7_presence_timer_witness:
  "presence_pair (run [first_observation] initial_loop_state) = (Some 970000, Some 1150000)
   \<and> presence_pair (fst (iteration second_observation (run [first_observation] initial_loop_state)))
       = (Some 970000, Some 1150000)
   \<and> currentSessionId (run [first_observation] initial_loop_state) = Some ''a1''
   \<and> lastPlayingState (run [first_observation] initial_loop_state)
   \<and> isPlaying first_observation
   \<and> currentSessionId (run [offline_paused, offline_playing] initial_loop_state) = None
   \<and> \<not> lastPlayingState (run [offline_paused, offline_playing] initial_loop_state)
   \<and> isPlaying offline_later
   \<and> presence_pair (run [offline_paused, offline_playing] initial_loop_state)
       = (Some 980000, Some 1160000)
   \<and> presence_pair (fst (iteration offline_later
         (run [offline_paused, offline_playing] initial_loop_state)))
       = (Some 980000, Some 1160000)
   \<and> activity electron_playing = Some (970, Some 1150)
   \<and> activity (fst (poll_once same_track_poll electron_playing)) = Some (970, Some 1150)"
proof -
  let ?st = "run [first_observation] initial_loop_state"
  let ?off = "run [offline_paused, offline_playing] initial_loop_state"
  note inst = C7_presence_timer [OF refl, of second_observation "[first_observation]"
      same_track_poll electron_playing]
  note inst_off = C7_presence_timer [OF refl, of offline_later
      "[offline_paused, offline_playing]" same_track_poll electron_playing]
  have before: "presence_pair ?st = (Some 970000, Some 1150000)"
    unfolding first_run by (simp add: presence_pair_def)
  have windows: "presence_pair (fst (iteration second_observation ?st))
      = (Some 970000, Some 1150000)"
    by (rule inst [THEN conjunct1, rule_format,
          where a = "\<lparr>src_app = ''Spotify.exe'', src_playing = True,
                      src_title = ''Paranoid Android'', src_artist = ''Radiohead'',
                      src_position = 33000\<rparr>"])
       (simp add: first_run second_observation_def presence_pair_def song_changed_def
          songId_def del: run.simps)
  have session: "currentSessionId ?st = Some ''a1''"
    unfolding first_run by simp
  have fresh: "lastPlayingState ?st = isPlaying (last [first_observation])"
    by (rule inst [THEN conjunct2, THEN conjunct1, rule_format])
       (simp add: first_run del: run.simps)
  have playing: "isPlaying first_observation"
    by (simp add: first_observation_def isPlaying_def)
  have off_session: "currentSessionId ?off = None"
    unfolding offline_run by simp
  have off_paused: "\<not> lastPlayingState ?off"
    unfolding offline_run by simp
  have off_playing: "isPlaying offline_later"
    by (simp add: offline_later_def isPlaying_def)
  have off_before: "presence_pair ?off = (Some 980000, Some 1160000)"
    unfolding offline_run by (simp add: presence_pair_def)
  have off_windows: "presence_pair (fst (iteration offline_later ?off))
      = (Some 980000, Some 1160000)"
    by (rule inst_off [THEN conjunct1, rule_format,
          where a = "\<lparr>src_app = ''Spotify.exe'', src_playing = True,
                      src_title = ''Paranoid Android'', src_artist = ''Radiohead'',
                      src_position = 23700\<rparr>"])
       (simp add: offline_run offline_later_def presence_pair_def song_changed_def
          songId_def del: run.simps)
  have electron: "activity (fst (poll_once same_track_poll electron_playing))
      = activity electron_playing"
    by (rule inst [THEN conjunct2, THEN conjunct2, THEN conjunct2, THEN conjunct1, rule_format,
          where m = zero_duration_media])
       (simp add: same_track_poll_def zero_duration_media_def electron_playing_def
          song_changed_def songId_def is_track_def isPlaceholder_def trim_def toLowerCase_def
          lower_char_def is_space_def)
  show ?thesis
    using before windows session fresh playing off_session off_paused off_playing
      off_before off_windows electron
    by (simp add: electron_playing_def del: run.simps)
qed

end
